theory Spec2Isabelle
  imports Complex_Main "HOL-Library.AList"
begin

section \<open>Data model\<close>

text \<open>
  The tuning utility is a Python class \<^verbatim>\<open>ParamTuning\<close> (file \<^verbatim>\<open>param_tuning.py\<close>) with two
  model families derived from it (file \<^verbatim>\<open>svm_tuning.py\<close>). Python values are embedded as
  follows. A finite float is a rational number (every finite float is one; the rounding of
  float arithmetic is outside the embedding). A Python \<^verbatim>\<open>int\<close> is an \<open>int\<close>. A dictionary is
  an association list in insertion order, read with \<open>map_of\<close> and written with
  \<open>AList.update\<close>, which replaces the value of a present key in place and appends an absent
  key at the end, as a Python dictionary does.
\<close>

datatype pval = PInt int | PFloat rat | PStr string

type_synonym 'v dict = "(string \<times> 'v) list"

text \<open>Exceptions of the source and of its collaborators, as values.\<close>

datatype error =
    Exception string
  | KeyError string
  | AttributeError string
  | TypeError string
  | ValueError string

text \<open>A two-dimensional array: its shape and its cells in row-major order.\<close>

record ndarray =
  shape0 :: nat
  shape1 :: nat
  cells :: "rat list"

text \<open>
  Fold splitters. \<open>KFold\<close> is scikit-learn's splitter with its three constructor arguments;
  any other splitter object is opaque and identified by a label.
\<close>

datatype splitter =
    KFold (n_splits: int) (shuffle: bool) (random_state: "int option")
  | OtherSplitter string

text \<open>The \<^verbatim>\<open>cv\<close> argument of a search method: a fold count or a splitter object.\<close>

datatype cv_arg = CvInt int | CvObj splitter

text \<open>
  The constructor call \<^verbatim>\<open>KFold(n_splits=n, shuffle=..., random_state=seed)\<close>: scikit-learn
  raises \<^verbatim>\<open>ValueError\<close> unless there are at least two splits.
\<close>

definition new_KFold :: "int \<Rightarrow> bool \<Rightarrow> int \<Rightarrow> error + splitter" where
  "new_KFold n shuf seed =
     (if n \<le> 1
      then Inl (ValueError ''k-fold cross-validation requires n_splits=2 or more'')
      else Inr (KFold n shuf (Some seed)))"

text \<open>
  Estimators. A learner carries its class name, the hyper-parameters set on it and, when it
  is a fitted model of a kind that has them, its per-feature importances. A pipeline is a
  list of named steps.
\<close>

datatype learner =
  Learner (class_name: string) (hyper: "pval dict") (importances: "rat list option")

datatype estimator = Bare learner | Pipeline "(string \<times> learner) list"

text \<open>
  The attribute \<^verbatim>\<open>feature_importances_\<close> of an estimator object: \<open>None\<close> when the object has
  no such attribute (reading it raises \<^verbatim>\<open>AttributeError\<close>). A scikit-learn pipeline object
  has none.
\<close>

fun feature_importances :: "estimator \<Rightarrow> rat list option" where
  "feature_importances (Bare l) = importances l"
| "feature_importances (Pipeline steps) = None"

text \<open>
  An attribute that \<^verbatim>\<open>__init__\<close> does not create is \<open>Unset\<close> until some method assigns it.
\<close>

datatype 'a attr = Unset | Assigned 'a

text \<open>
  Parameter grids of grid and random search live in a store, because the source writes into
  them in place and the class-level defaults are shared by all instances. A reference is an
  address of the store. Every Python reference denotes a live object, so the store is total.
\<close>

type_synonym addr = nat

type_synonym store = "addr \<Rightarrow> pval list dict"

text \<open>
  What \<^verbatim>\<open>self.tuning_params\<close> holds: a reference to the grid dictionary (grid and random
  search) or the dictionary of ranges (Bayesian search, never written to).
\<close>

datatype tuning = GridRef addr | Ranges "(pval \<times> pval) dict"

text \<open>The instance state of a tuner, one field for each attribute of \<^verbatim>\<open>self\<close>.\<close>

record tuner =
  self_X :: ndarray
  self_y :: "rat list"
  self_X_colnames :: "string list"
  self_y_colname :: "string option"
  self_tuning_params :: "tuning option"
  self_bayes_not_opt_params :: "pval dict option"
  self_seed :: "int option"
  self_cv :: "splitter option"
  self_fit_params :: "pval dict option"
  self_best_estimator :: "estimator option"
  self_scoring :: "string option attr"
  self_cv_model :: "estimator attr"
  self_int_params :: "string list attr"

section \<open>Construction\<close>

text \<open>
  \<^verbatim>\<open>ParamTuning.__init__\<close>: the width check comes first and raises before any attribute is
  assigned. The attributes \<^verbatim>\<open>scoring\<close>, \<^verbatim>\<open>cv_model\<close> and \<^verbatim>\<open>int_params\<close> are not created here.
\<close>

definition init :: "ndarray \<Rightarrow> rat list \<Rightarrow> string list \<Rightarrow> string option \<Rightarrow> error + tuner" where
  "init X y X_colnames y_colname =
     (if shape1 X \<noteq> length X_colnames
      then Inl (Exception ''width of X must be equal to length of X_colnames'')
      else Inr \<lparr> self_X = X, self_y = y, self_X_colnames = X_colnames,
                 self_y_colname = y_colname, self_tuning_params = None,
                 self_bayes_not_opt_params = None, self_seed = None, self_cv = None,
                 self_fit_params = None, self_best_estimator = None,
                 self_scoring = Unset, self_cv_model = Unset, self_int_params = Unset \<rparr>)"

section \<open>Feature importances\<close>

text \<open>
  The plotting surface: the module-level default (\<^verbatim>\<open>plt\<close>) or a caller's axes object. The
  bar chart that \<^verbatim>\<open>barh\<close> is asked to draw is returned as a value: the surface, the feature
  names and the bar lengths, in the order given to \<^verbatim>\<open>barh\<close>.
\<close>

datatype surface = DefaultSurface | Axes nat

type_synonym chart = "surface \<times> string list \<times> rat list"

text \<open>
  The draw call \<^verbatim>\<open>barh(features, importances)\<close> of matplotlib. The two sequences are
  broadcast against each other: equal lengths fit, and a sequence of length one fits any
  length; otherwise \<^verbatim>\<open>ValueError\<close> is raised. The outcome does not depend on the surface.
\<close>

definition barh :: "surface \<Rightarrow> string list \<Rightarrow> rat list \<Rightarrow> error + chart" where
  "barh s y width =
     (if length y = length width \<or> length y = 1 \<or> length width = 1
      then Inr (s, y, width)
      else Inl (ValueError ''shape mismatch: objects cannot be broadcast to a single shape''))"

text \<open>
  \<^verbatim>\<open>ParamTuning.get_feature_importances\<close>. The result is the returned value (\<open>None\<close> is
  Python's \<^verbatim>\<open>None\<close>) or the exception raised, the chart drawn if any, and the tuner state
  after the call.
\<close>

definition get_feature_importances ::
  "tuner \<Rightarrow> nat option \<Rightarrow> (error + rat list option) \<times> chart option \<times> tuner" where
  "get_feature_importances self ax =
     (case self_best_estimator self of
        Some est \<Rightarrow>
          (case feature_importances est of
             None \<Rightarrow> (Inl (AttributeError ''feature_importances_''), None, self)
           | Some imps \<Rightarrow>
               (let features = rev (self_X_colnames self);
                    importances = rev imps
                in case barh (case ax of None \<Rightarrow> DefaultSurface | Some a \<Rightarrow> Axes a)
                          features importances of
                     Inl e \<Rightarrow> (Inl e, None, self)
                   | Inr drawn \<Rightarrow> (Inr (Some imps), Some drawn, self)))
      | None \<Rightarrow> (Inr None, None, self))"

section \<open>Dictionaries and numbers\<close>

text \<open>
  \<^verbatim>\<open>d.update(other)\<close>: the entries of \<open>other\<close> are written into \<open>d\<close> one after the other.
\<close>

definition dict_update :: "'v dict \<Rightarrow> 'v dict \<Rightarrow> 'v dict" where
  "dict_update d other = fold (\<lambda>(k, v). AList.update k v) other d"

text \<open>\<^verbatim>\<open>int(x)\<close> on a float truncates towards zero.\<close>

definition trunc :: "rat \<Rightarrow> int" where
  "trunc r = (if 0 \<le> r then \<lfloor>r\<rfloor> else \<lceil>r\<rceil>)"

text \<open>
  \<^verbatim>\<open>int(x)\<close> on a parameter value. A string that is not a numeral raises \<^verbatim>\<open>ValueError\<close>; the
  parsing of numeral strings is not modelled, and no string reaches this function in the
  search methods, where the values converted come from the optimiser and are floats.
\<close>

fun py_int :: "pval \<Rightarrow> error + int" where
  "py_int (PInt i) = Inr i"
| "py_int (PFloat r) = Inr (trunc r)"
| "py_int (PStr s) = Inl (ValueError s)"

text \<open>
  The value of \<^verbatim>\<open>scores.mean()\<close> on the array of fold scores: NumPy yields \<^verbatim>\<open>nan\<close> on an empty
  array, and the exact mean stands for the float mean otherwise.
\<close>

datatype pyfloat = Fin rat | NaN

definition mean :: "rat list \<Rightarrow> pyfloat" where
  "mean scores = (if scores = [] then NaN else Fin (sum_list scores / of_nat (length scores)))"

section \<open>Collaborators and class-level configuration\<close>

text \<open>
  What a fitted \<^verbatim>\<open>GridSearchCV\<close> or \<^verbatim>\<open>RandomizedSearchCV\<close> object exposes (the attributes
  \<^verbatim>\<open>best_params_\<close>, \<^verbatim>\<open>best_score_\<close> and \<^verbatim>\<open>best_estimator_\<close>).
\<close>

record search_result =
  best_params :: "pval dict"
  best_score :: rat
  best_estimator :: estimator

text \<open>
  The external libraries are parameters of the model, one field for each call the source
  makes, with the arguments in the order the source passes them; each call may raise.
  \<open>GridSearchCV\<close> and \<open>RandomizedSearchCV\<close> stand for construction followed by \<^verbatim>\<open>fit\<close>,
  \<open>BayesianOptimization\<close> for construction followed by \<^verbatim>\<open>maximize\<close> and the reading of
  \<^verbatim>\<open>max\<close>. The constant argument \<^verbatim>\<open>n_jobs=-1\<close> is left out.
\<close>

record backend =
  GridSearchCV ::
    "estimator option \<Rightarrow> pval list dict \<Rightarrow> splitter \<Rightarrow> string option \<Rightarrow>
     ndarray \<Rightarrow> rat list \<Rightarrow> pval dict \<Rightarrow> error + search_result"
  RandomizedSearchCV ::
    "estimator option \<Rightarrow> pval list dict \<Rightarrow> splitter \<Rightarrow> int \<Rightarrow> int \<Rightarrow> string option \<Rightarrow>
     ndarray \<Rightarrow> rat list \<Rightarrow> pval dict \<Rightarrow> error + search_result"
  BayesianOptimization ::
    "(rat dict \<Rightarrow> error + pyfloat) \<Rightarrow> (pval \<times> pval) dict \<Rightarrow> int \<Rightarrow> int \<Rightarrow> int \<Rightarrow> string \<Rightarrow>
     error + (rat dict \<times> rat)"
  cross_val_score ::
    "estimator \<Rightarrow> ndarray \<Rightarrow> rat list \<Rightarrow> splitter option \<Rightarrow> string option \<Rightarrow>
     pval dict option \<Rightarrow> error + rat list"
  set_params :: "estimator \<Rightarrow> pval dict \<Rightarrow> error + estimator"
  fit :: "estimator \<Rightarrow> ndarray \<Rightarrow> rat list \<Rightarrow> pval dict \<Rightarrow> error + estimator"

text \<open>
  The class-level constants of a model family and its objective method
  \<^verbatim>\<open>_bayes_evaluate\<close>, which the optimiser calls with keyword arguments. The two grid
  dictionaries are references into the store. The constants that no method reads
  (\<^verbatim>\<open>SEEDS\<close> and the validation-curve settings) are left out.
\<close>

record family =
  SEED :: int
  CV_NUM :: int
  CV_MODEL :: "estimator option"
  FIT_PARAMS :: "pval dict"
  SCORING :: "string option"
  NOT_OPT_PARAMS :: "pval list dict"
  CV_PARAMS_GRID :: addr
  N_ITER_RANDOM :: int
  CV_PARAMS_RANDOM :: addr
  N_ITER_BAYES :: int
  INIT_POINTS :: int
  ACQ :: string
  BAYES_PARAMS :: "(pval \<times> pval) dict"
  INT_PARAMS :: "string list"
  BAYES_NOT_OPT_PARAMS :: "pval dict"
  bayes_evaluate :: "backend \<Rightarrow> tuner \<Rightarrow> rat dict \<Rightarrow> error + pyfloat"

text \<open>
  \<^verbatim>\<open>_train_param_generation\<close>: the hook on the fit-time parameters. The base class and both
  model families of the source return their argument.
\<close>

definition train_param_generation :: "pval dict \<Rightarrow> pval dict" where
  "train_param_generation src_fit_params = src_fit_params"

section \<open>Grid search and random search\<close>

text \<open>
  \<^verbatim>\<open>ParamTuning.grid_search_tuning\<close>. The arguments \<open>start\<close> and \<open>stop\<close> are the two clock
  readings. The result is the returned triple or the exception raised, with the store and
  the tuner state as they are when the call ends: when the construction of the K-fold
  splitter raises, \<^verbatim>\<open>self.cv\<close> is not assigned and the back end is not reached. The
  diagnostic \<^verbatim>\<open>print\<close> is left out.
\<close>

definition grid_search_tuning ::
  "backend \<Rightarrow> family \<Rightarrow> rat \<Rightarrow> rat \<Rightarrow> store \<Rightarrow> tuner \<Rightarrow>
   estimator option \<Rightarrow> addr option \<Rightarrow> cv_arg option \<Rightarrow> int option \<Rightarrow> string option \<Rightarrow> pval dict \<Rightarrow>
   (error + pval dict \<times> rat \<times> rat) \<times> store \<times> tuner" where
  "grid_search_tuning be cls start stop \<sigma> self cv_model cv_params cv seed scoring fit_params =
     (let cv_model = (if cv_model = None then CV_MODEL cls else cv_model);
          cv_params = (case cv_params of None \<Rightarrow> CV_PARAMS_GRID cls | Some a \<Rightarrow> a);
          cv = (case cv of None \<Rightarrow> CvInt (CV_NUM cls) | Some c \<Rightarrow> c);
          seed = (case seed of None \<Rightarrow> SEED cls | Some s \<Rightarrow> s);
          scoring = (if scoring = None then SCORING cls else scoring);
          fit_params = (if fit_params = [] then FIT_PARAMS cls else fit_params);
          \<sigma> = \<sigma>(cv_params := AList.update ''random_state'' [PInt seed] (\<sigma> cv_params));
          self = self\<lparr>self_tuning_params := Some (GridRef cv_params)\<rparr>;
          self = self\<lparr>self_seed := Some seed\<rparr>;
          self = self\<lparr>self_scoring := Assigned scoring\<rparr>;
          fit_params = train_param_generation fit_params;
          self = self\<lparr>self_fit_params := Some fit_params\<rparr>
      in case (case cv of CvInt n \<Rightarrow> new_KFold n True seed | CvObj s \<Rightarrow> Inr s) of
           Inl e \<Rightarrow> (Inl e, \<sigma>, self)
         | Inr cv \<Rightarrow>
             (let self = self\<lparr>self_cv := Some cv\<rparr>
              in case GridSearchCV be cv_model (\<sigma> cv_params) cv scoring (self_X self)
                        (self_y self) fit_params of
                   Inl e \<Rightarrow> (Inl e, \<sigma>, self)
                 | Inr gridcv \<Rightarrow>
                     (Inr (best_params gridcv, best_score gridcv, stop - start), \<sigma>,
                      self\<lparr>self_best_estimator := Some (best_estimator gridcv)\<rparr>)))"

text \<open>
  \<^verbatim>\<open>ParamTuning.random_search_tuning\<close>: the same, with the default grid
  \<^verbatim>\<open>CV_PARAMS_RANDOM\<close>, the iteration count, and the seed passed to the back end as well.
\<close>

definition random_search_tuning ::
  "backend \<Rightarrow> family \<Rightarrow> rat \<Rightarrow> rat \<Rightarrow> store \<Rightarrow> tuner \<Rightarrow>
   estimator option \<Rightarrow> addr option \<Rightarrow> cv_arg option \<Rightarrow> int option \<Rightarrow> string option \<Rightarrow> int option \<Rightarrow>
   pval dict \<Rightarrow> (error + pval dict \<times> rat \<times> rat) \<times> store \<times> tuner" where
  "random_search_tuning be cls start stop \<sigma> self cv_model cv_params cv seed scoring n_iter
       fit_params =
     (let cv_model = (if cv_model = None then CV_MODEL cls else cv_model);
          cv_params = (case cv_params of None \<Rightarrow> CV_PARAMS_RANDOM cls | Some a \<Rightarrow> a);
          cv = (case cv of None \<Rightarrow> CvInt (CV_NUM cls) | Some c \<Rightarrow> c);
          seed = (case seed of None \<Rightarrow> SEED cls | Some s \<Rightarrow> s);
          scoring = (if scoring = None then SCORING cls else scoring);
          n_iter = (case n_iter of None \<Rightarrow> N_ITER_RANDOM cls | Some n \<Rightarrow> n);
          fit_params = (if fit_params = [] then FIT_PARAMS cls else fit_params);
          \<sigma> = \<sigma>(cv_params := AList.update ''random_state'' [PInt seed] (\<sigma> cv_params));
          self = self\<lparr>self_tuning_params := Some (GridRef cv_params)\<rparr>;
          self = self\<lparr>self_seed := Some seed\<rparr>;
          self = self\<lparr>self_scoring := Assigned scoring\<rparr>;
          fit_params = train_param_generation fit_params;
          self = self\<lparr>self_fit_params := Some fit_params\<rparr>
      in case (case cv of CvInt n \<Rightarrow> new_KFold n True seed | CvObj s \<Rightarrow> Inr s) of
           Inl e \<Rightarrow> (Inl e, \<sigma>, self)
         | Inr cv \<Rightarrow>
             (let self = self\<lparr>self_cv := Some cv\<rparr>
              in case RandomizedSearchCV be cv_model (\<sigma> cv_params) cv seed n_iter scoring
                        (self_X self) (self_y self) fit_params of
                   Inl e \<Rightarrow> (Inl e, \<sigma>, self)
                 | Inr randcv \<Rightarrow>
                     (Inr (best_params randcv, best_score randcv, stop - start), \<sigma>,
                      self\<lparr>self_best_estimator := Some (best_estimator randcv)\<rparr>)))"

section \<open>Bayesian search\<close>

text \<open>
  The last part of \<^verbatim>\<open>ParamTuning.bayes_opt_tuning\<close>, from the reading of the optimiser's
  best point to the return. The source reads the keys \<^verbatim>\<open>min_child_weight\<close> and
  \<^verbatim>\<open>max_depth\<close> of the best point (a missing key raises \<^verbatim>\<open>KeyError\<close>), merges the
  class-level \<^verbatim>\<open>BAYES_NOT_OPT_PARAMS\<close>, writes \<^verbatim>\<open>self.seed\<close> (which holds \<open>seed\<close> at this
  point) under \<^verbatim>\<open>random_state\<close>, and fits a copy of the model. \<^verbatim>\<open>copy.deepcopy\<close> is the
  identity on values; on \<^verbatim>\<open>None\<close> the following \<^verbatim>\<open>set_params\<close> raises \<^verbatim>\<open>AttributeError\<close>.
\<close>

definition bayes_best ::
  "backend \<Rightarrow> family \<Rightarrow> rat \<Rightarrow> rat \<Rightarrow> tuner \<Rightarrow> estimator option \<Rightarrow> int \<Rightarrow> pval dict \<Rightarrow>
   rat dict \<times> rat \<Rightarrow> (error + pval dict \<times> rat \<times> rat) \<times> tuner" where
  "bayes_best be cls start stop self cv_model seed fit_params xgb_bo_max =
     (let best_params = map (\<lambda>(k, v). (k, PFloat v)) (fst xgb_bo_max)
      in case map_of best_params ''min_child_weight'' of
           None \<Rightarrow> (Inl (KeyError ''min_child_weight''), self)
         | Some w \<Rightarrow>
      (case py_int w of
         Inl e \<Rightarrow> (Inl e, self)
       | Inr wi \<Rightarrow>
      (let best_params = AList.update ''min_child_weight'' (PInt wi) best_params
       in case map_of best_params ''max_depth'' of
            None \<Rightarrow> (Inl (KeyError ''max_depth''), self)
          | Some d \<Rightarrow>
      (case py_int d of
         Inl e \<Rightarrow> (Inl e, self)
       | Inr di \<Rightarrow>
      (let best_params = AList.update ''max_depth'' (PInt di) best_params;
           best_params = dict_update best_params (BAYES_NOT_OPT_PARAMS cls);
           best_params = AList.update ''random_state'' (PInt seed) best_params;
           best_score = snd xgb_bo_max
       in case cv_model of
            None \<Rightarrow> (Inl (AttributeError ''set_params''), self)
          | Some m \<Rightarrow>
      (case set_params be m best_params of
         Inl e \<Rightarrow> (Inl e, self)
       | Inr best_model \<Rightarrow>
      (case fit be best_model (self_X self) (self_y self) fit_params of
         Inl e \<Rightarrow> (Inl e, self)
       | Inr best_model \<Rightarrow>
           (Inr (best_params, best_score, stop - start),
            self\<lparr>self_best_estimator := Some best_model\<rparr>))))))))"

text \<open>
  \<^verbatim>\<open>ParamTuning.bayes_opt_tuning\<close>: the resolution of the arguments, the assignments to
  \<^verbatim>\<open>self\<close>, the optimiser run on the bound method \<^verbatim>\<open>self._bayes_evaluate\<close>, and the last part
  above. The ranges are not written to, so they are passed by value.
\<close>

definition bayes_opt_tuning ::
  "backend \<Rightarrow> family \<Rightarrow> rat \<Rightarrow> rat \<Rightarrow> tuner \<Rightarrow>
   estimator option \<Rightarrow> (pval \<times> pval) dict option \<Rightarrow> cv_arg option \<Rightarrow> int option \<Rightarrow>
   string option \<Rightarrow> int option \<Rightarrow> int option \<Rightarrow> string option \<Rightarrow> pval dict option \<Rightarrow> pval dict \<Rightarrow>
   (error + pval dict \<times> rat \<times> rat) \<times> tuner" where
  "bayes_opt_tuning be cls start stop self cv_model bayes_params cv seed scoring n_iter
       init_points acq bayes_not_opt_params fit_params =
     (let cv_model = (if cv_model = None then CV_MODEL cls else cv_model);
          bayes_params = (case bayes_params of None \<Rightarrow> BAYES_PARAMS cls | Some b \<Rightarrow> b);
          cv = (case cv of None \<Rightarrow> CvInt (CV_NUM cls) | Some c \<Rightarrow> c);
          seed = (case seed of None \<Rightarrow> SEED cls | Some s \<Rightarrow> s);
          scoring = (if scoring = None then SCORING cls else scoring);
          n_iter = (case n_iter of None \<Rightarrow> N_ITER_BAYES cls | Some n \<Rightarrow> n);
          init_points = (case init_points of None \<Rightarrow> INIT_POINTS cls | Some n \<Rightarrow> n);
          acq = (case acq of None \<Rightarrow> ACQ cls | Some a \<Rightarrow> a);
          bayes_not_opt_params =
            (case bayes_not_opt_params of None \<Rightarrow> BAYES_NOT_OPT_PARAMS cls | Some d \<Rightarrow> d);
          fit_params = (if fit_params = [] then FIT_PARAMS cls else fit_params);
          self = self\<lparr>self_tuning_params := Some (Ranges bayes_params)\<rparr>;
          self = self\<lparr>self_bayes_not_opt_params := Some bayes_not_opt_params\<rparr>;
          self = self\<lparr>self_seed := Some seed\<rparr>;
          self = self\<lparr>self_scoring := Assigned scoring\<rparr>;
          fit_params = train_param_generation fit_params;
          self = self\<lparr>self_fit_params := Some fit_params\<rparr>
      in case (case cv of CvInt n \<Rightarrow> new_KFold n True seed | CvObj s \<Rightarrow> Inr s) of
           Inl e \<Rightarrow> (Inl e, self)
         | Inr cv \<Rightarrow>
             (let self = self\<lparr>self_cv := Some cv\<rparr>
              in case BayesianOptimization be (bayes_evaluate cls be self) bayes_params seed
                        init_points n_iter acq of
                   Inl e \<Rightarrow> (Inl e, self)
                 | Inr xgb_bo_max \<Rightarrow>
                     bayes_best be cls start stop self cv_model seed fit_params xgb_bo_max))"

section \<open>The objective of the support-vector families\<close>

text \<open>
  The objective methods call two helper methods on \<^verbatim>\<open>self\<close>, \<^verbatim>\<open>_int_conversion\<close> and
  \<^verbatim>\<open>_add_learner_name\<close>. Neither \<^verbatim>\<open>ParamTuning\<close> nor the two model families define them,
  so the lookup of either on an instance finds nothing and raises \<^verbatim>\<open>AttributeError\<close>. A
  method that a class defines would be \<open>Assigned\<close>.
\<close>

definition method_int_conversion :: "(pval dict \<Rightarrow> string list \<Rightarrow> pval dict) attr" where
  "method_int_conversion = Unset"

definition method_add_learner_name :: "(estimator \<Rightarrow> pval dict \<Rightarrow> pval dict) attr" where
  "method_add_learner_name = Unset"

text \<open>
  \<^verbatim>\<open>SVMRegressorTuning._bayes_evaluate\<close>, statement by statement. In a call
  \<^verbatim>\<open>self.m(args)\<close> the method is looked up before the arguments are evaluated. The
  attributes \<^verbatim>\<open>int_params\<close> and \<^verbatim>\<open>cv_model\<close> are read from \<^verbatim>\<open>self\<close>; reading an attribute
  that was never assigned raises \<^verbatim>\<open>AttributeError\<close>, and \<^verbatim>\<open>params.update(None)\<close> raises
  \<^verbatim>\<open>TypeError\<close>.
\<close>

definition SVMRegressor_bayes_evaluate ::
  "backend \<Rightarrow> tuner \<Rightarrow> rat \<Rightarrow> rat \<Rightarrow> rat \<Rightarrow> error + pyfloat" where
  "SVMRegressor_bayes_evaluate be self gamma C epsilon =
     (let params = [(''gamma'', PFloat gamma), (''C'', PFloat C), (''epsilon'', PFloat epsilon)]
      in case method_int_conversion of
           Unset \<Rightarrow> Inl (AttributeError ''_int_conversion'')
         | Assigned int_conversion \<Rightarrow>
      (case self_int_params self of
         Unset \<Rightarrow> Inl (AttributeError ''int_params'')
       | Assigned int_params \<Rightarrow>
      (let params = int_conversion params int_params
       in case self_bayes_not_opt_params self of
            None \<Rightarrow> Inl (TypeError ''NoneType object is not iterable'')
          | Some not_opt \<Rightarrow>
      (let params = dict_update params not_opt
       in case method_add_learner_name of
            Unset \<Rightarrow> Inl (AttributeError ''_add_learner_name'')
          | Assigned add_learner_name \<Rightarrow>
      (case self_cv_model self of
         Unset \<Rightarrow> Inl (AttributeError ''cv_model'')
       | Assigned m \<Rightarrow>
      (let params = add_learner_name m params
       in case set_params be m params of
            Inl e \<Rightarrow> Inl e
          | Inr cv_model \<Rightarrow>
      (case self_scoring self of
         Unset \<Rightarrow> Inl (AttributeError ''scoring'')
       | Assigned scoring \<Rightarrow>
      (case cross_val_score be cv_model (self_X self) (self_y self) (self_cv self) scoring
              (self_fit_params self) of
         Inl e \<Rightarrow> Inl e
       | Inr scores \<Rightarrow> Inr (mean scores)))))))))"

text \<open>\<^verbatim>\<open>SVMClassifierTuning._bayes_evaluate\<close>: the same with two parameters.\<close>

definition SVMClassifier_bayes_evaluate ::
  "backend \<Rightarrow> tuner \<Rightarrow> rat \<Rightarrow> rat \<Rightarrow> error + pyfloat" where
  "SVMClassifier_bayes_evaluate be self gamma C =
     (let params = [(''gamma'', PFloat gamma), (''C'', PFloat C)]
      in case method_int_conversion of
           Unset \<Rightarrow> Inl (AttributeError ''_int_conversion'')
         | Assigned int_conversion \<Rightarrow>
      (case self_int_params self of
         Unset \<Rightarrow> Inl (AttributeError ''int_params'')
       | Assigned int_params \<Rightarrow>
      (let params = int_conversion params int_params
       in case self_bayes_not_opt_params self of
            None \<Rightarrow> Inl (TypeError ''NoneType object is not iterable'')
          | Some not_opt \<Rightarrow>
      (let params = dict_update params not_opt
       in case method_add_learner_name of
            Unset \<Rightarrow> Inl (AttributeError ''_add_learner_name'')
          | Assigned add_learner_name \<Rightarrow>
      (case self_cv_model self of
         Unset \<Rightarrow> Inl (AttributeError ''cv_model'')
       | Assigned m \<Rightarrow>
      (let params = add_learner_name m params
       in case set_params be m params of
            Inl e \<Rightarrow> Inl e
          | Inr cv_model \<Rightarrow>
      (case self_scoring self of
         Unset \<Rightarrow> Inl (AttributeError ''scoring'')
       | Assigned scoring \<Rightarrow>
      (case cross_val_score be cv_model (self_X self) (self_y self) (self_cv self) scoring
              (self_fit_params self) of
         Inl e \<Rightarrow> Inl e
       | Inr scores \<Rightarrow> Inr (mean scores)))))))))"

text \<open>
  The optimiser calls the objective with keyword arguments, \<^verbatim>\<open>f(**point)\<close>: a missing or an
  unexpected name raises \<^verbatim>\<open>TypeError\<close>.
\<close>

definition SVMRegressor_objective :: "backend \<Rightarrow> tuner \<Rightarrow> rat dict \<Rightarrow> error + pyfloat" where
  "SVMRegressor_objective be self kw =
     (case (map_of kw ''gamma'', map_of kw ''C'', map_of kw ''epsilon'') of
        (Some gamma, Some C, Some epsilon) \<Rightarrow>
          if list_all (\<lambda>k. k \<in> set [''gamma'', ''C'', ''epsilon'']) (map fst kw)
          then SVMRegressor_bayes_evaluate be self gamma C epsilon
          else Inl (TypeError ''unexpected keyword argument'')
      | _ \<Rightarrow> Inl (TypeError ''missing required argument''))"

definition SVMClassifier_objective :: "backend \<Rightarrow> tuner \<Rightarrow> rat dict \<Rightarrow> error + pyfloat" where
  "SVMClassifier_objective be self kw =
     (case (map_of kw ''gamma'', map_of kw ''C'') of
        (Some gamma, Some C) \<Rightarrow>
          if list_all (\<lambda>k. k \<in> set [''gamma'', ''C'']) (map fst kw)
          then SVMClassifier_bayes_evaluate be self gamma C
          else Inl (TypeError ''unexpected keyword argument'')
      | _ \<Rightarrow> Inl (TypeError ''missing required argument''))"

section \<open>The two model families of the source\<close>

text \<open>
  The class attributes of \<^verbatim>\<open>SVMRegressorTuning\<close> and \<^verbatim>\<open>SVMClassifierTuning\<close>. A literal
  written without a decimal point in the source is an integer. Every list of
  \<^verbatim>\<open>NOT_OPT_PARAMS\<close> has an element, so the \<^verbatim>\<open>v[0]\<close> of the class body does not raise.
\<close>

definition SVM_NOT_OPT_PARAMS :: "pval list dict" where
  "SVM_NOT_OPT_PARAMS = [(''kernel'', [PStr ''rbf''])]"

definition SVMRegressor_CV_PARAMS_GRID :: "pval list dict" where
  "SVMRegressor_CV_PARAMS_GRID =
     dict_update
       [(''gamma'', [PFloat (1/100), PFloat (3/100), PFloat (1/10), PFloat (3/10),
                     PInt 1, PInt 3, PInt 10]),
        (''C'', [PFloat (1/10), PFloat (3/10), PInt 1, PInt 3, PInt 10]),
        (''epsilon'', [PInt 0, PFloat (1/10), PFloat (2/10), PFloat (3/10)])]
       SVM_NOT_OPT_PARAMS"

definition SVMRegressor_CV_PARAMS_RANDOM :: "pval list dict" where
  "SVMRegressor_CV_PARAMS_RANDOM =
     dict_update
       [(''gamma'', [PFloat (1/100), PFloat (2/100), PFloat (5/100), PFloat (1/10),
                     PFloat (2/10), PFloat (5/10), PInt 1, PInt 2, PInt 5, PInt 10]),
        (''C'', [PFloat (1/10), PFloat (2/10), PFloat (5/10), PInt 1, PInt 2, PInt 5,
                 PInt 10]),
        (''epsilon'', [PInt 0, PFloat (5/100), PFloat (1/10), PFloat (15/100),
                       PFloat (2/10), PFloat (25/100), PFloat (3/10)])]
       SVM_NOT_OPT_PARAMS"

definition SVMClassifier_CV_PARAMS_GRID :: "pval list dict" where
  "SVMClassifier_CV_PARAMS_GRID =
     dict_update
       [(''gamma'', [PFloat (1/100), PFloat (3/100), PFloat (1/10), PFloat (3/10),
                     PInt 1, PInt 3, PInt 10]),
        (''C'', [PFloat (1/10), PFloat (3/10), PInt 1, PInt 3, PInt 10])]
       SVM_NOT_OPT_PARAMS"

definition SVMClassifier_CV_PARAMS_RANDOM :: "pval list dict" where
  "SVMClassifier_CV_PARAMS_RANDOM =
     dict_update
       [(''gamma'', [PFloat (1/100), PFloat (2/100), PFloat (5/100), PFloat (1/10),
                     PFloat (2/10), PFloat (5/10), PInt 1, PInt 2, PInt 5, PInt 10]),
        (''C'', [PFloat (1/10), PFloat (2/10), PFloat (5/10), PInt 1, PInt 2, PInt 5,
                 PInt 10])]
       SVM_NOT_OPT_PARAMS"

text \<open>
  The store when the two classes have been created: their four grid dictionaries at the
  addresses 0 to 3. A caller's own dictionaries live at other addresses.
\<close>

definition class_store :: store where
  "class_store =
     (\<lambda>a. [])(0 := SVMRegressor_CV_PARAMS_GRID, 1 := SVMRegressor_CV_PARAMS_RANDOM,
               2 := SVMClassifier_CV_PARAMS_GRID, 3 := SVMClassifier_CV_PARAMS_RANDOM)"

definition SVMRegressorTuning :: family where
  "SVMRegressorTuning =
     \<lparr> SEED = 42, CV_NUM = 5,
       CV_MODEL = Some (Pipeline [(''scaler'', Learner ''StandardScaler'' [] None),
                                  (''svr'', Learner ''SVR'' [] None)]),
       FIT_PARAMS = [],
       SCORING = Some ''neg_mean_squared_error'',
       NOT_OPT_PARAMS = SVM_NOT_OPT_PARAMS,
       CV_PARAMS_GRID = 0,
       N_ITER_RANDOM = 200,
       CV_PARAMS_RANDOM = 1,
       N_ITER_BAYES = 100, INIT_POINTS = 20, ACQ = ''ei'',
       BAYES_PARAMS = [(''gamma'', (PFloat (1/100), PInt 10)),
                       (''C'', (PFloat (1/10), PInt 10)),
                       (''epsilon'', (PInt 0, PFloat (3/10)))],
       INT_PARAMS = [],
       BAYES_NOT_OPT_PARAMS = map (\<lambda>(k, v). (k, v ! 0)) SVM_NOT_OPT_PARAMS,
       bayes_evaluate = SVMRegressor_objective \<rparr>"

definition SVMClassifierTuning :: family where
  "SVMClassifierTuning =
     \<lparr> SEED = 42, CV_NUM = 5,
       CV_MODEL = Some (Pipeline [(''scaler'', Learner ''StandardScaler'' [] None),
                                  (''svc'', Learner ''SVC'' [] None)]),
       FIT_PARAMS = [],
       SCORING = Some ''neg_log_loss'',
       NOT_OPT_PARAMS = SVM_NOT_OPT_PARAMS,
       CV_PARAMS_GRID = 2,
       N_ITER_RANDOM = 200,
       CV_PARAMS_RANDOM = 3,
       N_ITER_BAYES = 100, INIT_POINTS = 20, ACQ = ''ei'',
       BAYES_PARAMS = [(''gamma'', (PFloat (1/100), PInt 10)),
                       (''C'', (PFloat (1/10), PInt 10))],
       INT_PARAMS = [],
       BAYES_NOT_OPT_PARAMS = map (\<lambda>(k, v). (k, v ! 0)) SVM_NOT_OPT_PARAMS,
       bayes_evaluate = SVMClassifier_objective \<rparr>"

section \<open>The resolution contract in the spec's words\<close>

text \<open>
  The spec: for each optional parameter, an explicit value of the caller is used, and the
  default of the model family otherwise. \<open>or_default\<close> is for a parameter whose default
  is a value, \<open>or_default_opt\<close> for one whose default may itself be \<^verbatim>\<open>None\<close> (the model
  and the scoring name, \<^verbatim>\<open>None\<close> in the base class).
\<close>

definition or_default :: "'a option \<Rightarrow> 'a \<Rightarrow> 'a" where
  "or_default explicit dflt = (case explicit of Some v \<Rightarrow> v | None \<Rightarrow> dflt)"

definition or_default_opt :: "'a option \<Rightarrow> 'a option \<Rightarrow> 'a option" where
  "or_default_opt explicit dflt = (case explicit of Some v \<Rightarrow> Some v | None \<Rightarrow> dflt)"

text \<open>
  The keyword arguments \<^verbatim>\<open>**fit_params\<close> cannot be omitted other than by passing none,
  so the explicit value is a non-empty dictionary.
\<close>

definition or_default_kwargs :: "pval dict \<Rightarrow> pval dict \<Rightarrow> pval dict" where
  "or_default_kwargs explicit dflt = (if explicit = [] then dflt else explicit)"

text \<open>
  The spec: a plain fold count becomes a shuffled K-fold splitter seeded with the resolved
  seed, and a splitter object is passed through unchanged. The construction of the K-fold
  splitter is the library's and may raise.
\<close>

fun resolved_splitter :: "cv_arg \<Rightarrow> int \<Rightarrow> error + splitter" where
  "resolved_splitter (CvInt n) seed = new_KFold n True seed"
| "resolved_splitter (CvObj s) seed = Inr s"

text \<open>The triple a grid or random search returns when its back end has finished.\<close>

definition search_outcome ::
  "rat \<Rightarrow> rat \<Rightarrow> error + search_result \<Rightarrow> error + pval dict \<times> rat \<times> rat" where
  "search_outcome start stop res =
     (case res of
        Inl e \<Rightarrow> Inl e
      | Inr r \<Rightarrow> Inr (best_params r, best_score r, stop - start))"

text \<open>
  A parameter combination is drawn from a grid when it gives every name of the grid one of
  the candidate values of that name; this is what a grid or random search reports as its
  best parameters.
\<close>

definition drawn_from :: "pval list dict \<Rightarrow> pval dict \<Rightarrow> bool" where
  "drawn_from grid combination =
     list_all
       (\<lambda>k. case (map_of grid k, map_of combination k) of
               (Some vs, Some v) \<Rightarrow> v \<in> set vs
             | _ \<Rightarrow> False)
       (map fst grid)"

section \<open>Example inputs\<close>

text \<open>A dataset of two samples and three named features, and the tuner constructed on it.\<close>

definition example_X :: ndarray where
  "example_X = \<lparr> shape0 = 2, shape1 = 3, cells = [1, 2, 3, 4, 5, 6] \<rparr>"

definition example_tuner :: tuner where
  "example_tuner =
     \<lparr> self_X = example_X, self_y = [1, 0], self_X_colnames = [''a'', ''b'', ''c''],
       self_y_colname = None, self_tuning_params = None,
       self_bayes_not_opt_params = None, self_seed = None, self_cv = None,
       self_fit_params = None, self_best_estimator = None,
       self_scoring = Unset, self_cv_model = Unset, self_int_params = Unset \<rparr>"

text \<open>
  A back end for the examples. Its searches report the first candidate of every parameter
  and the model they were given as the best estimator; its optimiser reports a given best
  point and target; \<open>set_params\<close> writes into a bare learner; \<open>fit\<close> returns the model.
\<close>

fun first_candidates :: "pval list dict \<Rightarrow> pval dict option" where
  "first_candidates [] = Some []"
| "first_candidates ((k, vs) # grid) =
     (case vs of
        [] \<Rightarrow> None
      | v # _ \<Rightarrow> map_option (\<lambda>rest. (k, v) # rest) (first_candidates grid))"

definition first_candidate_search :: "estimator option \<Rightarrow> pval list dict \<Rightarrow> error + search_result" where
  "first_candidate_search model grid =
     (case model of
        None \<Rightarrow> Inl (TypeError ''estimator should be an estimator'')
      | Some est \<Rightarrow>
          (case first_candidates grid of
             None \<Rightarrow> Inl (ValueError ''empty parameter list'')
           | Some p \<Rightarrow> Inr \<lparr> best_params = p, best_score = 0, best_estimator = est \<rparr>))"

definition example_backend :: "rat dict \<Rightarrow> rat \<Rightarrow> backend" where
  "example_backend point target =
     \<lparr> GridSearchCV = (\<lambda>model grid cv scoring X y fit_params.
         first_candidate_search model grid),
       RandomizedSearchCV = (\<lambda>model grid cv seed n_iter scoring X y fit_params.
         first_candidate_search model grid),
       BayesianOptimization = (\<lambda>f ranges seed init_points n_iter acq. Inr (point, target)),
       cross_val_score = (\<lambda>model X y cv scoring fit_params. Inr [1/2, 3/4]),
       set_params = (\<lambda>model params.
         Inr (case model of
                Bare l \<Rightarrow> Bare (Learner (class_name l) (dict_update (hyper l) params)
                                  (importances l))
              | Pipeline steps \<Rightarrow> Pipeline steps)),
       fit = (\<lambda>model X y fit_params. Inr model) \<rparr>"

text \<open>
  An optimiser that stops at once and reports the names of the ranges it was given.
\<close>

definition reporting_backend :: backend where
  "reporting_backend =
     (example_backend [] 0)
       \<lparr> BayesianOptimization := (\<lambda>f ranges seed init_points n_iter acq.
           Inl (Exception (concat (map (\<lambda>(k, r). k @ '' '') ranges)))) \<rparr>"

text \<open>
  A model family of gradient-boosted trees, whose ranges contain the two names that the
  last part of \<^verbatim>\<open>bayes_opt_tuning\<close> reads; neither support-vector family has them. Its
  objective is constant. Its grid dictionaries are at the addresses 4 and 5.
\<close>

definition tree_family :: family where
  "tree_family =
     \<lparr> SEED = 42, CV_NUM = 5,
       CV_MODEL = Some (Bare (Learner ''XGBRegressor'' [] None)),
       FIT_PARAMS = [],
       SCORING = Some ''r2'',
       NOT_OPT_PARAMS = [(''booster'', [PStr ''gbtree''])],
       CV_PARAMS_GRID = 4,
       N_ITER_RANDOM = 200,
       CV_PARAMS_RANDOM = 5,
       N_ITER_BAYES = 100, INIT_POINTS = 20, ACQ = ''ei'',
       BAYES_PARAMS = [(''n_estimators'', (PInt 10, PInt 100)),
                       (''min_child_weight'', (PInt 1, PInt 10)),
                       (''max_depth'', (PInt 2, PInt 10))],
       INT_PARAMS = [''n_estimators'', ''min_child_weight'', ''max_depth''],
       BAYES_NOT_OPT_PARAMS = [(''booster'', PStr ''gbtree'')],
       bayes_evaluate = (\<lambda>be self kw. Inr (Fin 0)) \<rparr>"

text \<open>
  A best point of the optimiser for the tree family, none of whose coordinates is whole.
\<close>

definition example_point :: "rat dict" where
  "example_point = [(''n_estimators'', 573/10), (''min_child_weight'', 57/10), (''max_depth'', 16/5)]"

text \<open>
  A dataset of ten labelled samples and three named features, and the tuner constructed
  on it.
\<close>

definition labelled_X :: ndarray where
  "labelled_X =
     \<lparr> shape0 = 10, shape1 = 3,
       cells = [1, 2, 3,  2, 1, 4,  3, 5, 1,  4, 2, 2,  5, 4, 3,
                6, 1, 5,  7, 3, 2,  8, 5, 4,  9, 2, 1,  10, 4, 5] \<rparr>"

definition labelled_tuner :: tuner where
  "labelled_tuner =
     \<lparr> self_X = labelled_X, self_y = [0, 1, 0, 1, 0, 1, 0, 1, 0, 1],
       self_X_colnames = [''a'', ''b'', ''c''],
       self_y_colname = None, self_tuning_params = None,
       self_bayes_not_opt_params = None, self_seed = None, self_cv = None,
       self_fit_params = None, self_best_estimator = None,
       self_scoring = Unset, self_cv_model = Unset, self_int_params = Unset \<rparr>"

text \<open>
  An optimiser that evaluates the objective once, at the lower corner of the ranges, lets
  an exception of the objective pass to its caller, and otherwise reports that corner with
  the target 0.
\<close>

fun bound_value :: "pval \<Rightarrow> rat" where
  "bound_value (PInt i) = of_int i"
| "bound_value (PFloat r) = r"
| "bound_value (PStr s) = 0"

definition evaluating_backend :: backend where
  "evaluating_backend =
     (example_backend [] 0)
       \<lparr> BayesianOptimization := (\<lambda>f ranges seed init_points n_iter acq.
           case f (map (\<lambda>(k, lo, hi). (k, bound_value lo)) ranges) of
             Inl e \<Rightarrow> Inl e
           | Inr target \<Rightarrow> Inr (map (\<lambda>(k, lo, hi). (k, bound_value lo)) ranges, 0)) \<rparr>"

section \<open>The search methods in resolved form\<close>

text \<open>
  Each search method, rewritten with the resolution contract in the spec's words: what is
  assigned to the tuner, what is handed to the back end, and what is returned.
\<close>

lemma resolved_splitter_case:
  "(case c of CvInt n \<Rightarrow> new_KFold n True s | CvObj sp \<Rightarrow> Inr sp) = resolved_splitter c s"
  by (cases c) simp_all

lemma or_default_case: "(case a of None \<Rightarrow> d | Some v \<Rightarrow> v) = or_default a d"
  by (simp add: or_default_def split: option.splits)

lemma or_default_opt_if: "(if a = None then d else a) = or_default_opt a d"
  by (simp add: or_default_opt_def split: option.splits)

lemma or_default_kwargs_if: "(if a = [] then d else a) = or_default_kwargs a d"
  by (simp add: or_default_kwargs_def)

lemma grid_search_tuning_resolved:
  "grid_search_tuning be cls start stop \<sigma> self cv_model cv_params cv seed scoring fit_params =
     (let a = or_default cv_params (CV_PARAMS_GRID cls);
          sd = or_default seed (SEED cls);
          \<sigma>' = \<sigma>(a := AList.update ''random_state'' [PInt sd] (\<sigma> a));
          sc = or_default_opt scoring (SCORING cls);
          fp = or_default_kwargs fit_params (FIT_PARAMS cls);
          self1 = self\<lparr>self_tuning_params := Some (GridRef a), self_seed := Some sd,
                        self_scoring := Assigned sc, self_fit_params := Some fp\<rparr>
      in case resolved_splitter (or_default cv (CvInt (CV_NUM cls))) sd of
           Inl e \<Rightarrow> (Inl e, \<sigma>', self1)
         | Inr sp \<Rightarrow>
             (let res = GridSearchCV be (or_default_opt cv_model (CV_MODEL cls)) (\<sigma>' a) sp sc
                          (self_X self) (self_y self) fp
              in (search_outcome start stop res, \<sigma>',
                  case res of
                    Inl e \<Rightarrow> self1\<lparr>self_cv := Some sp\<rparr>
                  | Inr r \<Rightarrow> self1\<lparr>self_cv := Some sp,
                                    self_best_estimator := Some (best_estimator r)\<rparr>)))"
  unfolding grid_search_tuning_def train_param_generation_def resolved_splitter_case
    or_default_case or_default_opt_if or_default_kwargs_if search_outcome_def Let_def
  by (simp split: sum.splits)

lemma random_search_tuning_resolved:
  "random_search_tuning be cls start stop \<sigma> self cv_model cv_params cv seed scoring n_iter
       fit_params =
     (let a = or_default cv_params (CV_PARAMS_RANDOM cls);
          sd = or_default seed (SEED cls);
          \<sigma>' = \<sigma>(a := AList.update ''random_state'' [PInt sd] (\<sigma> a));
          sc = or_default_opt scoring (SCORING cls);
          fp = or_default_kwargs fit_params (FIT_PARAMS cls);
          self1 = self\<lparr>self_tuning_params := Some (GridRef a), self_seed := Some sd,
                        self_scoring := Assigned sc, self_fit_params := Some fp\<rparr>
      in case resolved_splitter (or_default cv (CvInt (CV_NUM cls))) sd of
           Inl e \<Rightarrow> (Inl e, \<sigma>', self1)
         | Inr sp \<Rightarrow>
             (let res = RandomizedSearchCV be (or_default_opt cv_model (CV_MODEL cls)) (\<sigma>' a)
                          sp sd (or_default n_iter (N_ITER_RANDOM cls)) sc
                          (self_X self) (self_y self) fp
              in (search_outcome start stop res, \<sigma>',
                  case res of
                    Inl e \<Rightarrow> self1\<lparr>self_cv := Some sp\<rparr>
                  | Inr r \<Rightarrow> self1\<lparr>self_cv := Some sp,
                                    self_best_estimator := Some (best_estimator r)\<rparr>)))"
  unfolding random_search_tuning_def train_param_generation_def resolved_splitter_case
    or_default_case or_default_opt_if or_default_kwargs_if search_outcome_def Let_def
  by (simp split: sum.splits)

lemma bayes_opt_tuning_resolved:
  "bayes_opt_tuning be cls start stop self cv_model bayes_params cv seed scoring n_iter
       init_points acq bayes_not_opt_params fit_params =
     (let sd = or_default seed (SEED cls);
          ranges = or_default bayes_params (BAYES_PARAMS cls);
          sc = or_default_opt scoring (SCORING cls);
          fp = or_default_kwargs fit_params (FIT_PARAMS cls);
          self1 = self\<lparr>self_tuning_params := Some (Ranges ranges),
                        self_bayes_not_opt_params :=
                          Some (or_default bayes_not_opt_params (BAYES_NOT_OPT_PARAMS cls)),
                        self_seed := Some sd, self_scoring := Assigned sc,
                        self_fit_params := Some fp\<rparr>
      in case resolved_splitter (or_default cv (CvInt (CV_NUM cls))) sd of
           Inl e \<Rightarrow> (Inl e, self1)
         | Inr sp \<Rightarrow>
             (case BayesianOptimization be
                     (bayes_evaluate cls be (self1\<lparr>self_cv := Some sp\<rparr>)) ranges sd
                     (or_default init_points (INIT_POINTS cls))
                     (or_default n_iter (N_ITER_BAYES cls)) (or_default acq (ACQ cls)) of
                Inl e \<Rightarrow> (Inl e, self1\<lparr>self_cv := Some sp\<rparr>)
              | Inr xgb_bo_max \<Rightarrow>
                  bayes_best be cls start stop (self1\<lparr>self_cv := Some sp\<rparr>)
                    (or_default_opt cv_model (CV_MODEL cls)) sd fp xgb_bo_max))"
  unfolding bayes_opt_tuning_def train_param_generation_def resolved_splitter_case
    or_default_case or_default_opt_if or_default_kwargs_if Let_def
  by (simp split: sum.splits)

lemma map_of_PFloat:
  "map_of (map (\<lambda>(k, v). (k, PFloat v)) xs) k = map_option PFloat (map_of xs k)"
  by (induction xs) auto

lemma bayes_best_found:
  assumes "map_of (fst mx) ''min_child_weight'' = Some w"
      and "map_of (fst mx) ''max_depth'' = Some d"
  shows "bayes_best be cls start stop self cv_model seed fit_params mx =
     (let best_params = AList.update ''random_state'' (PInt seed)
            (dict_update
               (AList.update ''max_depth'' (PInt (trunc d))
                  (AList.update ''min_child_weight'' (PInt (trunc w))
                     (map (\<lambda>(k, v). (k, PFloat v)) (fst mx))))
               (BAYES_NOT_OPT_PARAMS cls))
      in case cv_model of
           None \<Rightarrow> (Inl (AttributeError ''set_params''), self)
         | Some m \<Rightarrow>
             (case set_params be m best_params of
                Inl e \<Rightarrow> (Inl e, self)
              | Inr m1 \<Rightarrow>
                  (case fit be m1 (self_X self) (self_y self) fit_params of
                     Inl e \<Rightarrow> (Inl e, self)
                   | Inr m2 \<Rightarrow>
                       (Inr (best_params, snd mx, stop - start),
                        self\<lparr>self_best_estimator := Some m2\<rparr>))))"
  using assms
  by (simp add: bayes_best_def map_of_PFloat update_conv' Let_def)

lemma bayes_best_missing_weight:
  "map_of (fst mx) ''min_child_weight'' = None \<Longrightarrow>
   bayes_best be cls start stop self cv_model seed fit_params mx =
     (Inl (KeyError ''min_child_weight''), self)"
  by (simp add: bayes_best_def map_of_PFloat)

lemma bayes_best_missing_depth:
  "map_of (fst mx) ''min_child_weight'' = Some w \<Longrightarrow> map_of (fst mx) ''max_depth'' = None \<Longrightarrow>
   bayes_best be cls start stop self cv_model seed fit_params mx =
     (Inl (KeyError ''max_depth''), self)"
  by (simp add: bayes_best_def map_of_PFloat update_conv')

lemma search_outcome_Inl_iff:
  "search_outcome start stop res = Inl e \<longleftrightarrow> res = Inl e"
  by (simp add: search_outcome_def split: sum.splits)

lemma grid_search_failure_keeps_estimator:
  "fst (grid_search_tuning be cls start stop \<sigma> self m p c s sc fp) = Inl e \<Longrightarrow>
   self_best_estimator (snd (snd (grid_search_tuning be cls start stop \<sigma> self m p c s sc fp)))
     = self_best_estimator self"
  by (simp add: grid_search_tuning_resolved Let_def search_outcome_Inl_iff split: sum.splits)

lemma random_search_failure_keeps_estimator:
  "fst (random_search_tuning be cls start stop \<sigma> self m p c s sc n fp) = Inl e \<Longrightarrow>
   self_best_estimator (snd (snd (random_search_tuning be cls start stop \<sigma> self m p c s sc n fp)))
     = self_best_estimator self"
  by (simp add: random_search_tuning_resolved Let_def search_outcome_Inl_iff split: sum.splits)

lemma bayes_best_frame:
  "(\<exists>e. bayes_best be cls start stop self m sd fp mx = (Inl e, self)) \<or>
   (\<exists>out m2. bayes_best be cls start stop self m sd fp mx =
      (Inr out, self\<lparr>self_best_estimator := Some m2\<rparr>))"
proof (cases "map_of (fst mx) ''min_child_weight''")
  case None
  then show ?thesis by (simp add: bayes_best_missing_weight)
next
  case (Some w)
  show ?thesis
  proof (cases "map_of (fst mx) ''max_depth''")
    case None
    with Some show ?thesis by (simp add: bayes_best_missing_depth)
  next
    case (Some d)
    with \<open>map_of (fst mx) ''min_child_weight'' = Some w\<close> show ?thesis
      by (auto simp add: bayes_best_found Let_def split: option.splits sum.splits)
  qed
qed

lemma bayes_best_failure_keeps_estimator:
  assumes "fst (bayes_best be cls start stop self m sd fp mx) = Inl e"
  shows "self_best_estimator (snd (bayes_best be cls start stop self m sd fp mx))
     = self_best_estimator self"
  using assms bayes_best_frame [of be cls start stop self m sd fp mx] by auto

lemma bayes_opt_failure_keeps_estimator:
  assumes "fst (bayes_opt_tuning be cls start stop self m bp c s sc n ip acq nop fp) = Inl e"
  shows "self_best_estimator
           (snd (bayes_opt_tuning be cls start stop self m bp c s sc n ip acq nop fp))
     = self_best_estimator self"
  using assms
  by (auto simp: bayes_opt_tuning_resolved Let_def split: sum.splits
           dest: bayes_best_failure_keeps_estimator)

lemma bayes_best_keeps_cv:
  "self_cv (snd (bayes_best be cls start stop self m sd fp mx)) = self_cv self"
  using bayes_best_frame [of be cls start stop self m sd fp mx] by auto

lemma grid_search_tuning_store:
  "fst (snd (grid_search_tuning be cls start stop \<sigma> self cv_model cv_params cv seed scoring
               fit_params)) =
     \<sigma>(or_default cv_params (CV_PARAMS_GRID cls) :=
          AList.update ''random_state'' [PInt (or_default seed (SEED cls))]
            (\<sigma> (or_default cv_params (CV_PARAMS_GRID cls))))"
  by (simp add: grid_search_tuning_resolved Let_def split: sum.splits)

lemma random_search_tuning_store:
  "fst (snd (random_search_tuning be cls start stop \<sigma> self cv_model cv_params cv seed scoring
               n_iter fit_params)) =
     \<sigma>(or_default cv_params (CV_PARAMS_RANDOM cls) :=
          AList.update ''random_state'' [PInt (or_default seed (SEED cls))]
            (\<sigma> (or_default cv_params (CV_PARAMS_RANDOM cls))))"
  by (simp add: random_search_tuning_resolved Let_def split: sum.splits)

lemma grid_search_tuning_params:
  "self_tuning_params
     (snd (snd (grid_search_tuning be cls start stop \<sigma> self cv_model cv_params cv seed scoring
                  fit_params))) = Some (GridRef (or_default cv_params (CV_PARAMS_GRID cls)))"
  by (simp add: grid_search_tuning_resolved Let_def split: sum.splits)

lemma random_search_tuning_params:
  "self_tuning_params
     (snd (snd (random_search_tuning be cls start stop \<sigma> self cv_model cv_params cv seed
                  scoring n_iter fit_params))) =
     Some (GridRef (or_default cv_params (CV_PARAMS_RANDOM cls)))"
  by (simp add: random_search_tuning_resolved Let_def split: sum.splits)

lemma grid_search_tuning_outcome:
  "fst (grid_search_tuning be cls start stop \<sigma> self cv_model cv_params cv seed scoring
          fit_params) =
     (case resolved_splitter (or_default cv (CvInt (CV_NUM cls))) (or_default seed (SEED cls)) of
        Inl e \<Rightarrow> Inl e
      | Inr sp \<Rightarrow>
          search_outcome start stop
            (GridSearchCV be (or_default_opt cv_model (CV_MODEL cls))
               (AList.update ''random_state'' [PInt (or_default seed (SEED cls))]
                  (\<sigma> (or_default cv_params (CV_PARAMS_GRID cls))))
               sp (or_default_opt scoring (SCORING cls)) (self_X self) (self_y self)
               (or_default_kwargs fit_params (FIT_PARAMS cls))))"
  by (simp add: grid_search_tuning_resolved Let_def split: sum.splits)

lemma random_search_tuning_outcome:
  "fst (random_search_tuning be cls start stop \<sigma> self cv_model cv_params cv seed scoring n_iter
          fit_params) =
     (case resolved_splitter (or_default cv (CvInt (CV_NUM cls))) (or_default seed (SEED cls)) of
        Inl e \<Rightarrow> Inl e
      | Inr sp \<Rightarrow>
          search_outcome start stop
            (RandomizedSearchCV be (or_default_opt cv_model (CV_MODEL cls))
               (AList.update ''random_state'' [PInt (or_default seed (SEED cls))]
                  (\<sigma> (or_default cv_params (CV_PARAMS_RANDOM cls))))
               sp (or_default seed (SEED cls)) (or_default n_iter (N_ITER_RANDOM cls))
               (or_default_opt scoring (SCORING cls)) (self_X self) (self_y self)
               (or_default_kwargs fit_params (FIT_PARAMS cls))))"
  by (simp add: random_search_tuning_resolved Let_def split: sum.splits)

lemma grid_search_tuning_cv:
  "self_cv (snd (snd (grid_search_tuning be cls start stop \<sigma> self cv_model cv_params cv seed
                        scoring fit_params))) =
     (case resolved_splitter (or_default cv (CvInt (CV_NUM cls))) (or_default seed (SEED cls)) of
        Inl e \<Rightarrow> self_cv self
      | Inr sp \<Rightarrow> Some sp)"
  by (simp add: grid_search_tuning_resolved Let_def split: sum.splits)

lemma random_search_tuning_cv:
  "self_cv (snd (snd (random_search_tuning be cls start stop \<sigma> self cv_model cv_params cv seed
                        scoring n_iter fit_params))) =
     (case resolved_splitter (or_default cv (CvInt (CV_NUM cls))) (or_default seed (SEED cls)) of
        Inl e \<Rightarrow> self_cv self
      | Inr sp \<Rightarrow> Some sp)"
  by (simp add: random_search_tuning_resolved Let_def split: sum.splits)

lemma bayes_opt_tuning_cv:
  "self_cv (snd (bayes_opt_tuning be cls start stop self cv_model bayes_params cv seed scoring
                   n_iter init_points acq bayes_not_opt_params fit_params)) =
     (case resolved_splitter (or_default cv (CvInt (CV_NUM cls))) (or_default seed (SEED cls)) of
        Inl e \<Rightarrow> self_cv self
      | Inr sp \<Rightarrow> Some sp)"
  by (simp add: bayes_opt_tuning_resolved Let_def bayes_best_keeps_cv split: sum.splits)

lemma bayes_opt_tuning_raises:
  "resolved_splitter (or_default cv (CvInt (CV_NUM cls))) (or_default seed (SEED cls)) = Inl e \<Longrightarrow>
   fst (bayes_opt_tuning be cls start stop self cv_model bayes_params cv seed scoring
          n_iter init_points acq bayes_not_opt_params fit_params) = Inl e"
  by (simp add: bayes_opt_tuning_resolved Let_def)

lemma bayes_opt_tuning_objective:
  assumes "resolved_splitter (or_default cv (CvInt (CV_NUM cls))) (or_default seed (SEED cls))
             = Inr sp"
  shows "\<exists>self'. self_cv self' = Some sp \<and>
     bayes_opt_tuning be cls start stop self cv_model bayes_params cv seed scoring n_iter
         init_points acq bayes_not_opt_params fit_params =
       (case BayesianOptimization be (bayes_evaluate cls be self')
               (or_default bayes_params (BAYES_PARAMS cls)) (or_default seed (SEED cls))
               (or_default init_points (INIT_POINTS cls))
               (or_default n_iter (N_ITER_BAYES cls)) (or_default acq (ACQ cls)) of
          Inl e \<Rightarrow> (Inl e, self')
        | Inr mx \<Rightarrow>
            bayes_best be cls start stop self' (or_default_opt cv_model (CV_MODEL cls))
              (or_default seed (SEED cls)) (or_default_kwargs fit_params (FIT_PARAMS cls)) mx)"
  unfolding bayes_opt_tuning_resolved Let_def assms
  by (rule exI [of _ "self\<lparr>self_tuning_params :=
                          Some (Ranges (or_default bayes_params (BAYES_PARAMS cls))),
                        self_bayes_not_opt_params :=
                          Some (or_default bayes_not_opt_params (BAYES_NOT_OPT_PARAMS cls)),
                        self_seed := Some (or_default seed (SEED cls)),
                        self_scoring := Assigned (or_default_opt scoring (SCORING cls)),
                        self_fit_params :=
                          Some (or_default_kwargs fit_params (FIT_PARAMS cls)),
                        self_cv := Some sp\<rparr>"]) simp

lemma bayes_best_seed:
  assumes "fst (bayes_best be cls start stop self m sd fp mx) = Inr (bp, score, el)"
  shows "map_of bp ''random_state'' = Some (PInt sd)"
proof (cases "map_of (fst mx) ''min_child_weight''")
  case None
  with assms show ?thesis by (simp add: bayes_best_missing_weight)
next
  case (Some w)
  show ?thesis
  proof (cases "map_of (fst mx) ''max_depth''")
    case None
    with Some assms show ?thesis by (simp add: bayes_best_missing_depth)
  next
    case (Some d)
    with \<open>map_of (fst mx) ''min_child_weight'' = Some w\<close> assms show ?thesis
      by (auto simp add: bayes_best_found Let_def update_conv' split: option.splits sum.splits)
  qed
qed

lemma bayes_opt_tuning_completed:
  assumes "fst (bayes_opt_tuning be cls start stop self cv_model bayes_params cv seed scoring
                  n_iter init_points acq bayes_not_opt_params fit_params) = Inr out"
  shows "\<exists>self' mx.
           BayesianOptimization be (bayes_evaluate cls be self')
             (or_default bayes_params (BAYES_PARAMS cls)) (or_default seed (SEED cls))
             (or_default init_points (INIT_POINTS cls)) (or_default n_iter (N_ITER_BAYES cls))
             (or_default acq (ACQ cls)) = Inr mx \<and>
           fst (bayes_best be cls start stop self' (or_default_opt cv_model (CV_MODEL cls))
                  (or_default seed (SEED cls)) (or_default_kwargs fit_params (FIT_PARAMS cls))
                  mx) = Inr out"
  using assms
  by (auto simp: bayes_opt_tuning_resolved Let_def split: sum.splits)

lemma bayes_best_ignores_INT_PARAMS:
  "bayes_best be (cls\<lparr>INT_PARAMS := ips\<rparr>) start stop self cv_model sd fit_params mx =
     bayes_best be cls start stop self cv_model sd fit_params mx"
proof (cases "map_of (fst mx) ''min_child_weight''")
  case None
  then show ?thesis by (simp add: bayes_best_missing_weight)
next
  case (Some w)
  show ?thesis
  proof (cases "map_of (fst mx) ''max_depth''")
    case None
    with Some show ?thesis by (simp add: bayes_best_missing_depth)
  next
    case (Some d)
    with \<open>map_of (fst mx) ''min_child_weight'' = Some w\<close> show ?thesis
      by (simp add: bayes_best_found)
  qed
qed

lemma drawn_from_lookup:
  assumes "drawn_from grid combination" and "map_of grid k = Some vs"
  shows "\<exists>v\<in>set vs. map_of combination k = Some v"
proof -
  from assms(2) have "k \<in> set (map fst grid)"
    by (metis map_of_eq_None_iff option.distinct(1) set_map)
  with assms(1) have "case (map_of grid k, map_of combination k) of
      (Some vs, Some v) \<Rightarrow> v \<in> set vs | _ \<Rightarrow> False"
    unfolding drawn_from_def list_all_iff by blast
  with assms(2) show ?thesis by (simp split: option.splits)
qed

lemma drawn_from_pinned:
  "drawn_from grid combination \<Longrightarrow> map_of grid k = Some [v] \<Longrightarrow> map_of combination k = Some v"
  using drawn_from_lookup by fastforce

lemma floor_rat_numeral:
  "\<lfloor>numeral a / numeral b :: rat\<rfloor> = numeral a div numeral b"
  by (metis floor_divide_of_int_eq of_int_numeral)

lemma floor_rat_neg_numeral:
  "\<lfloor>- (numeral a / numeral b) :: rat\<rfloor> = - numeral a div numeral b"
  by (metis divide_minus_left floor_divide_of_int_eq of_int_neg_numeral of_int_numeral)

lemma ceiling_rat_numeral:
  "\<lceil>numeral a / numeral b :: rat\<rceil> = - (- numeral a div numeral b)"
  by (metis ceiling_divide_eq_div of_int_numeral)

lemma ceiling_rat_neg_numeral:
  "\<lceil>- (numeral a / numeral b) :: rat\<rceil> = - (numeral a div numeral b)"
  by (simp add: ceiling_def floor_rat_numeral)

lemmas rat_rounding = floor_rat_numeral floor_rat_neg_numeral ceiling_rat_numeral
  ceiling_rat_neg_numeral

lemmas example_defs =
  class_store_def SVMRegressorTuning_def SVMClassifierTuning_def tree_family_def
  example_backend_def reporting_backend_def evaluating_backend_def
  first_candidate_search_def dict_update_def
  SVMRegressor_CV_PARAMS_GRID_def SVMRegressor_CV_PARAMS_RANDOM_def
  SVMClassifier_CV_PARAMS_GRID_def SVMClassifier_CV_PARAMS_RANDOM_def
  SVM_NOT_OPT_PARAMS_def example_tuner_def example_X_def example_point_def
  or_default_def or_default_opt_def or_default_kwargs_def search_outcome_def new_KFold_def

lemmas labelled_defs = labelled_X_def labelled_tuner_def

lemma SVMRegressor_bayes_evaluate_raises:
  "SVMRegressor_bayes_evaluate be self gamma C epsilon = Inl (AttributeError ''_int_conversion'')"
  by (simp add: SVMRegressor_bayes_evaluate_def method_int_conversion_def)

lemma SVMClassifier_bayes_evaluate_raises:
  "SVMClassifier_bayes_evaluate be self gamma C = Inl (AttributeError ''_int_conversion'')"
  by (simp add: SVMClassifier_bayes_evaluate_def method_int_conversion_def)

lemma searches_with_splitter:
  assumes "resolved_splitter (or_default cv (CvInt (CV_NUM cls))) (or_default seed (SEED cls))
             = Inr s"
  shows
    "self_cv (snd (snd (grid_search_tuning be cls start stop \<sigma> self cv_model cv_params cv
                          seed scoring fit_params))) = Some s \<and>
     fst (grid_search_tuning be cls start stop \<sigma> self cv_model cv_params cv seed scoring
            fit_params) =
       search_outcome start stop
         (GridSearchCV be (or_default_opt cv_model (CV_MODEL cls))
            (AList.update ''random_state'' [PInt (or_default seed (SEED cls))]
               (\<sigma> (or_default cv_params (CV_PARAMS_GRID cls))))
            s (or_default_opt scoring (SCORING cls)) (self_X self) (self_y self)
            (or_default_kwargs fit_params (FIT_PARAMS cls))) \<and>
     self_cv (snd (snd (random_search_tuning be cls start stop \<sigma> self cv_model cv_params cv
                          seed scoring n_iter fit_params))) = Some s \<and>
     fst (random_search_tuning be cls start stop \<sigma> self cv_model cv_params cv seed scoring
            n_iter fit_params) =
       search_outcome start stop
         (RandomizedSearchCV be (or_default_opt cv_model (CV_MODEL cls))
            (AList.update ''random_state'' [PInt (or_default seed (SEED cls))]
               (\<sigma> (or_default cv_params (CV_PARAMS_RANDOM cls))))
            s (or_default seed (SEED cls)) (or_default n_iter (N_ITER_RANDOM cls))
            (or_default_opt scoring (SCORING cls)) (self_X self) (self_y self)
            (or_default_kwargs fit_params (FIT_PARAMS cls))) \<and>
     self_cv (snd (bayes_opt_tuning be cls start stop self cv_model bayes_params cv seed
                     scoring n_iter_b init_points acq bayes_not_opt_params fit_params)) =
       Some s"
  using assms
  by (simp add: grid_search_tuning_cv random_search_tuning_cv bayes_opt_tuning_cv
        grid_search_tuning_outcome random_search_tuning_outcome)

lemma searches_without_splitter:
  assumes "resolved_splitter (or_default cv (CvInt (CV_NUM cls))) (or_default seed (SEED cls))
             = Inl e"
  shows
    "fst (grid_search_tuning be cls start stop \<sigma> self cv_model cv_params cv seed scoring
            fit_params) = Inl e \<and>
     self_cv (snd (snd (grid_search_tuning be cls start stop \<sigma> self cv_model cv_params cv
                          seed scoring fit_params))) = self_cv self \<and>
     fst (random_search_tuning be cls start stop \<sigma> self cv_model cv_params cv seed scoring
            n_iter fit_params) = Inl e \<and>
     self_cv (snd (snd (random_search_tuning be cls start stop \<sigma> self cv_model cv_params cv
                          seed scoring n_iter fit_params))) = self_cv self \<and>
     fst (bayes_opt_tuning be cls start stop self cv_model bayes_params cv seed scoring
            n_iter_b init_points acq bayes_not_opt_params fit_params) = Inl e \<and>
     self_cv (snd (bayes_opt_tuning be cls start stop self cv_model bayes_params cv seed
                     scoring n_iter_b init_points acq bayes_not_opt_params fit_params)) =
       self_cv self"
  using assms
  by (simp add: grid_search_tuning_cv random_search_tuning_cv bayes_opt_tuning_cv
        grid_search_tuning_outcome random_search_tuning_outcome bayes_opt_tuning_raises)

section \<open>Resolution of the optional arguments\<close>

text \<open>
  C1. The code against the claim. The claim: in every search method an explicit value of
  an optional argument is the one used. In Bayesian search the caller's fixed parameters
  are resolved and stored in the tuner, and then the class-level \<^verbatim>\<open>BAYES_NOT_OPT_PARAMS\<close>
  is merged into the result in their place: a caller of the tree family who passes the
  booster \<^verbatim>\<open>gblinear\<close> gets the class default \<^verbatim>\<open>gbtree\<close> back, and the same result as a
  caller who passes no fixed parameters.
\<close>

theorem explicit_fixed_params_not_in_result:
  "self_bayes_not_opt_params
     (snd (bayes_opt_tuning (example_backend example_point (9/10)) tree_family 0 1
             example_tuner None None None None None None None None
             (Some [(''booster'', PStr ''gblinear'')]) [])) =
     Some [(''booster'', PStr ''gblinear'')] \<and>
   self_bayes_not_opt_params
     (snd (bayes_opt_tuning (example_backend example_point (9/10)) tree_family 0 1
             example_tuner None None None None None None None None None [])) =
     Some [(''booster'', PStr ''gbtree'')] \<and>
   fst (bayes_opt_tuning (example_backend example_point (9/10)) tree_family 0 1
          example_tuner None None None None None None None None
          (Some [(''booster'', PStr ''gblinear'')]) []) =
     Inr ([(''n_estimators'', PFloat (573/10)), (''min_child_weight'', PInt 5),
           (''max_depth'', PInt 3), (''booster'', PStr ''gbtree''),
           (''random_state'', PInt 42)], 9/10, 1) \<and>
   fst (bayes_opt_tuning (example_backend example_point (9/10)) tree_family 0 1
          example_tuner None None None None None None None None
          (Some [(''booster'', PStr ''gblinear'')]) []) =
   fst (bayes_opt_tuning (example_backend example_point (9/10)) tree_family 0 1
          example_tuner None None None None None None None None None [])"
  by (simp add: bayes_opt_tuning_resolved Let_def example_defs bayes_best_def trunc_def
        rat_rounding)

section \<open>The seed in the grid and in the result\<close>

text \<open>
  C2, as the code has it. Grid search and random search write the resolved seed into the
  grid dictionary as the one-element list under \<^verbatim>\<open>random_state\<close> and hand that dictionary
  to the back end; when the back end returns a combination drawn from the grid it was
  handed, the returned best parameters hold the seed under \<^verbatim>\<open>random_state\<close>. Bayesian
  search hands the resolved ranges to the optimiser as they are, with the seed as the
  optimiser's own random state, and every completed call returns best parameters that hold
  the resolved seed under \<^verbatim>\<open>random_state\<close>.
\<close>

theorem seed_pinned_in_grid_and_result:
  "map_of (fst (snd (grid_search_tuning be cls start stop \<sigma> self cv_model cv_params cv seed
                       scoring fit_params))
             (or_default cv_params (CV_PARAMS_GRID cls))) ''random_state''
     = Some [PInt (or_default seed (SEED cls))] \<and>
   fst (grid_search_tuning be cls start stop \<sigma> self cv_model cv_params cv seed scoring
          fit_params) =
     (case resolved_splitter (or_default cv (CvInt (CV_NUM cls))) (or_default seed (SEED cls)) of
        Inl e \<Rightarrow> Inl e
      | Inr sp \<Rightarrow>
          search_outcome start stop
            (GridSearchCV be (or_default_opt cv_model (CV_MODEL cls))
               (fst (snd (grid_search_tuning be cls start stop \<sigma> self cv_model cv_params cv
                            seed scoring fit_params))
                  (or_default cv_params (CV_PARAMS_GRID cls)))
               sp (or_default_opt scoring (SCORING cls)) (self_X self) (self_y self)
               (or_default_kwargs fit_params (FIT_PARAMS cls)))) \<and>
   (fst (grid_search_tuning be cls start stop \<sigma> self cv_model cv_params cv seed scoring
           fit_params) = Inr (bp, score, el) \<and>
    drawn_from
      (fst (snd (grid_search_tuning be cls start stop \<sigma> self cv_model cv_params cv seed
                   scoring fit_params))
         (or_default cv_params (CV_PARAMS_GRID cls))) bp \<longrightarrow>
    map_of bp ''random_state'' = Some (PInt (or_default seed (SEED cls)))) \<and>
   map_of (fst (snd (random_search_tuning be cls start stop \<sigma> self cv_model cv_params cv seed
                       scoring n_iter fit_params))
             (or_default cv_params (CV_PARAMS_RANDOM cls))) ''random_state''
     = Some [PInt (or_default seed (SEED cls))] \<and>
   fst (random_search_tuning be cls start stop \<sigma> self cv_model cv_params cv seed scoring
          n_iter fit_params) =
     (case resolved_splitter (or_default cv (CvInt (CV_NUM cls))) (or_default seed (SEED cls)) of
        Inl e \<Rightarrow> Inl e
      | Inr sp \<Rightarrow>
          search_outcome start stop
            (RandomizedSearchCV be (or_default_opt cv_model (CV_MODEL cls))
               (fst (snd (random_search_tuning be cls start stop \<sigma> self cv_model cv_params
                            cv seed scoring n_iter fit_params))
                  (or_default cv_params (CV_PARAMS_RANDOM cls)))
               sp (or_default seed (SEED cls)) (or_default n_iter (N_ITER_RANDOM cls))
               (or_default_opt scoring (SCORING cls)) (self_X self) (self_y self)
               (or_default_kwargs fit_params (FIT_PARAMS cls)))) \<and>
   (fst (random_search_tuning be cls start stop \<sigma> self cv_model cv_params cv seed scoring
           n_iter fit_params) = Inr (bp, score, el) \<and>
    drawn_from
      (fst (snd (random_search_tuning be cls start stop \<sigma> self cv_model cv_params cv seed
                   scoring n_iter fit_params))
         (or_default cv_params (CV_PARAMS_RANDOM cls))) bp \<longrightarrow>
    map_of bp ''random_state'' = Some (PInt (or_default seed (SEED cls)))) \<and>
   (fst (bayes_opt_tuning be cls start stop self cv_model bayes_params cv seed scoring
           n_iter_b init_points acq bayes_not_opt_params fit_params) = Inr (bp, score, el) \<longrightarrow>
    map_of bp ''random_state'' = Some (PInt (or_default seed (SEED cls))) \<and>
    (\<exists>self' mx.
       BayesianOptimization be (bayes_evaluate cls be self')
         (or_default bayes_params (BAYES_PARAMS cls)) (or_default seed (SEED cls))
         (or_default init_points (INIT_POINTS cls)) (or_default n_iter_b (N_ITER_BAYES cls))
         (or_default acq (ACQ cls)) = Inr mx))"
proof -
  have store_g:
    "fst (snd (grid_search_tuning be cls start stop \<sigma> self cv_model cv_params cv seed
                 scoring fit_params)) (or_default cv_params (CV_PARAMS_GRID cls)) =
     AList.update ''random_state'' [PInt (or_default seed (SEED cls))]
       (\<sigma> (or_default cv_params (CV_PARAMS_GRID cls)))"
    by (simp add: grid_search_tuning_store)
  have store_r:
    "fst (snd (random_search_tuning be cls start stop \<sigma> self cv_model cv_params cv seed
                 scoring n_iter fit_params)) (or_default cv_params (CV_PARAMS_RANDOM cls)) =
     AList.update ''random_state'' [PInt (or_default seed (SEED cls))]
       (\<sigma> (or_default cv_params (CV_PARAMS_RANDOM cls)))"
    by (simp add: random_search_tuning_store)
  have pinned: "map_of (AList.update ''random_state'' [v] g) ''random_state'' = Some [v]"
    for v :: pval and g
    by (simp add: update_conv')
  have bayes:
    "map_of bp ''random_state'' = Some (PInt (or_default seed (SEED cls))) \<and>
     (\<exists>self' mx.
        BayesianOptimization be (bayes_evaluate cls be self')
          (or_default bayes_params (BAYES_PARAMS cls)) (or_default seed (SEED cls))
          (or_default init_points (INIT_POINTS cls)) (or_default n_iter_b (N_ITER_BAYES cls))
          (or_default acq (ACQ cls)) = Inr mx)"
    if "fst (bayes_opt_tuning be cls start stop self cv_model bayes_params cv seed scoring
              n_iter_b init_points acq bayes_not_opt_params fit_params) = Inr (bp, score, el)"
    using bayes_opt_tuning_completed [OF that] bayes_best_seed by blast
  show ?thesis
    unfolding store_g store_r
    using bayes
    by (auto simp: pinned grid_search_tuning_outcome random_search_tuning_outcome
          dest: drawn_from_pinned [OF _ pinned])
qed

theorem seed_pinned_in_grid_and_result_witness:
  "fst (grid_search_tuning (example_backend [] 0) SVMRegressorTuning 0 1 class_store
          example_tuner None None None None None []) =
     Inr ([(''gamma'', PFloat (1/100)), (''C'', PFloat (1/10)), (''epsilon'', PInt 0),
           (''kernel'', PStr ''rbf''), (''random_state'', PInt 42)], 0, 1) \<and>
   drawn_from
     (fst (snd (grid_search_tuning (example_backend [] 0) SVMRegressorTuning 0 1 class_store
                  example_tuner None None None None None []))
        (or_default None (CV_PARAMS_GRID SVMRegressorTuning)))
     [(''gamma'', PFloat (1/100)), (''C'', PFloat (1/10)), (''epsilon'', PInt 0),
      (''kernel'', PStr ''rbf''), (''random_state'', PInt 42)] \<and>
   map_of [(''gamma'', PFloat (1/100)), (''C'', PFloat (1/10)), (''epsilon'', PInt 0),
           (''kernel'', PStr ''rbf''), (''random_state'', PInt 42)] ''random_state''
     = Some (PInt (or_default None (SEED SVMRegressorTuning))) \<and>
   fst (bayes_opt_tuning (example_backend example_point (9/10)) tree_family 0 1 example_tuner
          None None None (Some 7) None None None None None []) =
     Inr ([(''n_estimators'', PFloat (573/10)), (''min_child_weight'', PInt 5),
           (''max_depth'', PInt 3), (''booster'', PStr ''gbtree''),
           (''random_state'', PInt 7)], 9/10, 1) \<and>
   map_of [(''n_estimators'', PFloat (573/10)), (''min_child_weight'', PInt 5),
           (''max_depth'', PInt 3), (''booster'', PStr ''gbtree''),
           (''random_state'', PInt 7)] ''random_state''
     = Some (PInt (or_default (Some 7) (SEED tree_family)))"
proof -
  let ?bpG = "[(''gamma'', PFloat (1/100)), (''C'', PFloat (1/10)), (''epsilon'', PInt 0),
               (''kernel'', PStr ''rbf''), (''random_state'', PInt 42)]"
  let ?bpB = "[(''n_estimators'', PFloat (573/10)), (''min_child_weight'', PInt 5),
               (''max_depth'', PInt 3), (''booster'', PStr ''gbtree''),
               (''random_state'', PInt 7)]"
  have g: "fst (grid_search_tuning (example_backend [] 0) SVMRegressorTuning 0 1 class_store
                  example_tuner None None None None None []) = Inr (?bpG, 0, 1)"
    by (simp add: grid_search_tuning_resolved Let_def example_defs)
  have d: "drawn_from
     (fst (snd (grid_search_tuning (example_backend [] 0) SVMRegressorTuning 0 1 class_store
                  example_tuner None None None None None []))
        (or_default None (CV_PARAMS_GRID SVMRegressorTuning))) ?bpG"
    by (simp add: grid_search_tuning_resolved Let_def example_defs drawn_from_def)
  have b: "fst (bayes_opt_tuning (example_backend example_point (9/10)) tree_family 0 1
                  example_tuner None None None (Some 7) None None None None None []) =
             Inr (?bpB, 9/10, 1)"
    by (simp add: bayes_opt_tuning_resolved Let_def example_defs bayes_best_def trunc_def
          rat_rounding)
  from g d
    seed_pinned_in_grid_and_result
      [where be = "example_backend [] 0" and cls = SVMRegressorTuning and start = 0
         and stop = 1 and \<sigma> = class_store and self = example_tuner and cv_model = None
         and cv_params = None and cv = None and seed = None and scoring = None
         and fit_params = "[]" and score = 0 and el = 1 and bp = ?bpG]
  have sg: "map_of ?bpG ''random_state'' = Some (PInt (or_default None (SEED SVMRegressorTuning)))"
    by blast
  from b
    seed_pinned_in_grid_and_result
      [where be = "example_backend example_point (9/10)" and cls = tree_family and start = 0
         and stop = 1 and self = example_tuner and cv_model = None
         and bayes_params = None and cv = None and seed = "Some 7" and scoring = None
         and n_iter_b = None and init_points = None and acq = None
         and bayes_not_opt_params = None
         and fit_params = "[]" and score = "9/10" and el = 1 and bp = ?bpB]
  have sb: "map_of ?bpB ''random_state'' = Some (PInt (or_default (Some 7) (SEED tree_family)))"
    by blast
  from g d sg b sb show ?thesis by blast
qed

text \<open>
  The claim as stated fails for Bayesian search: on a default call of the regression
  family the optimiser is given the three ranges of the family and no entry named
  \<^verbatim>\<open>random_state\<close>.
\<close>

theorem bayes_ranges_without_seed:
  "fst (bayes_opt_tuning reporting_backend SVMRegressorTuning 0 1 example_tuner
          None None None None None None None None None []) =
     Inl (Exception ''gamma C epsilon '')"
  by (simp add: bayes_opt_tuning_resolved Let_def example_defs)

section \<open>The cross-validation argument\<close>

text \<open>
  C3, as the code has it. When the cross-validation argument resolves to a fold count \<open>n\<close>
  of at least two, grid search and random search store a K-fold splitter with \<open>n\<close> splits,
  shuffling, and the resolved seed as its random state in the tuner and hand it to the
  back end, and Bayesian search stores the same splitter in the tuner. When the fold
  count is one or less, the construction of the splitter raises \<^verbatim>\<open>ValueError\<close> in all
  three methods, \<^verbatim>\<open>self.cv\<close> keeps its value and no back end is reached. When the
  argument resolves to a splitter object, that object is stored unchanged, and handed
  unchanged to the back end of grid and random search.
\<close>

theorem valid_fold_count_becomes_seeded_kfold:
  "(or_default cv (CvInt (CV_NUM cls)) = CvInt n \<and> 2 \<le> n \<longrightarrow>
      self_cv (snd (snd (grid_search_tuning be cls start stop \<sigma> self cv_model cv_params cv
                           seed scoring fit_params))) =
        Some (KFold n True (Some (or_default seed (SEED cls)))) \<and>
      fst (grid_search_tuning be cls start stop \<sigma> self cv_model cv_params cv seed scoring
             fit_params) =
        search_outcome start stop
          (GridSearchCV be (or_default_opt cv_model (CV_MODEL cls))
             (AList.update ''random_state'' [PInt (or_default seed (SEED cls))]
                (\<sigma> (or_default cv_params (CV_PARAMS_GRID cls))))
             (KFold n True (Some (or_default seed (SEED cls))))
             (or_default_opt scoring (SCORING cls)) (self_X self) (self_y self)
             (or_default_kwargs fit_params (FIT_PARAMS cls))) \<and>
      self_cv (snd (snd (random_search_tuning be cls start stop \<sigma> self cv_model cv_params cv
                           seed scoring n_iter fit_params))) =
        Some (KFold n True (Some (or_default seed (SEED cls)))) \<and>
      fst (random_search_tuning be cls start stop \<sigma> self cv_model cv_params cv seed scoring
             n_iter fit_params) =
        search_outcome start stop
          (RandomizedSearchCV be (or_default_opt cv_model (CV_MODEL cls))
             (AList.update ''random_state'' [PInt (or_default seed (SEED cls))]
                (\<sigma> (or_default cv_params (CV_PARAMS_RANDOM cls))))
             (KFold n True (Some (or_default seed (SEED cls))))
             (or_default seed (SEED cls)) (or_default n_iter (N_ITER_RANDOM cls))
             (or_default_opt scoring (SCORING cls)) (self_X self) (self_y self)
             (or_default_kwargs fit_params (FIT_PARAMS cls))) \<and>
      self_cv (snd (bayes_opt_tuning be cls start stop self cv_model bayes_params cv seed
                      scoring n_iter_b init_points acq bayes_not_opt_params fit_params)) =
        Some (KFold n True (Some (or_default seed (SEED cls))))) \<and>
   (or_default cv (CvInt (CV_NUM cls)) = CvInt n \<and> n \<le> 1 \<longrightarrow>
      fst (grid_search_tuning be cls start stop \<sigma> self cv_model cv_params cv seed scoring
             fit_params) =
        Inl (ValueError ''k-fold cross-validation requires n_splits=2 or more'') \<and>
      self_cv (snd (snd (grid_search_tuning be cls start stop \<sigma> self cv_model cv_params cv
                           seed scoring fit_params))) = self_cv self \<and>
      fst (random_search_tuning be cls start stop \<sigma> self cv_model cv_params cv seed scoring
             n_iter fit_params) =
        Inl (ValueError ''k-fold cross-validation requires n_splits=2 or more'') \<and>
      self_cv (snd (snd (random_search_tuning be cls start stop \<sigma> self cv_model cv_params cv
                           seed scoring n_iter fit_params))) = self_cv self \<and>
      fst (bayes_opt_tuning be cls start stop self cv_model bayes_params cv seed scoring
             n_iter_b init_points acq bayes_not_opt_params fit_params) =
        Inl (ValueError ''k-fold cross-validation requires n_splits=2 or more'') \<and>
      self_cv (snd (bayes_opt_tuning be cls start stop self cv_model bayes_params cv seed
                      scoring n_iter_b init_points acq bayes_not_opt_params fit_params)) =
        self_cv self) \<and>
   (or_default cv (CvInt (CV_NUM cls)) = CvObj sp \<longrightarrow>
      self_cv (snd (snd (grid_search_tuning be cls start stop \<sigma> self cv_model cv_params cv
                           seed scoring fit_params))) = Some sp \<and>
      fst (grid_search_tuning be cls start stop \<sigma> self cv_model cv_params cv seed scoring
             fit_params) =
        search_outcome start stop
          (GridSearchCV be (or_default_opt cv_model (CV_MODEL cls))
             (AList.update ''random_state'' [PInt (or_default seed (SEED cls))]
                (\<sigma> (or_default cv_params (CV_PARAMS_GRID cls))))
             sp (or_default_opt scoring (SCORING cls)) (self_X self) (self_y self)
             (or_default_kwargs fit_params (FIT_PARAMS cls))) \<and>
      self_cv (snd (snd (random_search_tuning be cls start stop \<sigma> self cv_model cv_params cv
                           seed scoring n_iter fit_params))) = Some sp \<and>
      fst (random_search_tuning be cls start stop \<sigma> self cv_model cv_params cv seed scoring
             n_iter fit_params) =
        search_outcome start stop
          (RandomizedSearchCV be (or_default_opt cv_model (CV_MODEL cls))
             (AList.update ''random_state'' [PInt (or_default seed (SEED cls))]
                (\<sigma> (or_default cv_params (CV_PARAMS_RANDOM cls))))
             sp (or_default seed (SEED cls)) (or_default n_iter (N_ITER_RANDOM cls))
             (or_default_opt scoring (SCORING cls)) (self_X self) (self_y self)
             (or_default_kwargs fit_params (FIT_PARAMS cls))) \<and>
      self_cv (snd (bayes_opt_tuning be cls start stop self cv_model bayes_params cv seed
                      scoring n_iter_b init_points acq bayes_not_opt_params fit_params)) =
        Some sp)"
proof -
  have fold:
    "resolved_splitter (or_default cv (CvInt (CV_NUM cls))) (or_default seed (SEED cls)) =
       Inr (KFold n True (Some (or_default seed (SEED cls))))"
    if "or_default cv (CvInt (CV_NUM cls)) = CvInt n \<and> 2 \<le> n"
    using that by (simp add: new_KFold_def)
  have single:
    "resolved_splitter (or_default cv (CvInt (CV_NUM cls))) (or_default seed (SEED cls)) =
       Inl (ValueError ''k-fold cross-validation requires n_splits=2 or more'')"
    if "or_default cv (CvInt (CV_NUM cls)) = CvInt n \<and> n \<le> 1"
    using that by (simp add: new_KFold_def)
  have object:
    "resolved_splitter (or_default cv (CvInt (CV_NUM cls))) (or_default seed (SEED cls)) =
       Inr sp"
    if "or_default cv (CvInt (CV_NUM cls)) = CvObj sp"
    using that by simp
  note with_fold = searches_with_splitter
    [OF fold, of be start stop \<sigma> self cv_model cv_params scoring fit_params n_iter
       bayes_params n_iter_b init_points acq bayes_not_opt_params]
  note with_single = searches_without_splitter
    [OF single, of be start stop \<sigma> self cv_model cv_params scoring fit_params n_iter
       bayes_params n_iter_b init_points acq bayes_not_opt_params]
  note with_object = searches_with_splitter
    [OF object, of be start stop \<sigma> self cv_model cv_params scoring fit_params n_iter
       bayes_params n_iter_b init_points acq bayes_not_opt_params]
  from with_fold with_single with_object show ?thesis
    by blast
qed

theorem valid_fold_count_becomes_seeded_kfold_witness:
  "or_default (Some (CvInt 3)) (CvInt (CV_NUM SVMRegressorTuning)) = CvInt 3 \<and>
   (2::int) \<le> 3 \<and>
   self_cv (snd (snd (grid_search_tuning (example_backend [] 0) SVMRegressorTuning 0 1
                        class_store labelled_tuner None None (Some (CvInt 3)) (Some 7) None [])))
     = Some (KFold 3 True (Some 7)) \<and>
   self_cv (snd (bayes_opt_tuning evaluating_backend SVMRegressorTuning 0 1 labelled_tuner
                   None None (Some (CvInt 3)) (Some 7) None None None None None []))
     = Some (KFold 3 True (Some 7)) \<and>
   or_default (Some (CvInt 0)) (CvInt (CV_NUM SVMRegressorTuning)) = CvInt 0 \<and>
   (0::int) \<le> 1 \<and>
   fst (random_search_tuning (example_backend [] 0) SVMRegressorTuning 0 1
          class_store labelled_tuner None None (Some (CvInt 0)) (Some 7) None None []) =
     Inl (ValueError ''k-fold cross-validation requires n_splits=2 or more'') \<and>
   self_cv (snd (snd (random_search_tuning (example_backend [] 0) SVMRegressorTuning 0 1
                        class_store labelled_tuner None None (Some (CvInt 0)) (Some 7) None
                        None []))) = self_cv labelled_tuner \<and>
   or_default (Some (CvObj (OtherSplitter ''GroupKFold''))) (CvInt (CV_NUM SVMRegressorTuning))
     = CvObj (OtherSplitter ''GroupKFold'') \<and>
   self_cv (snd (snd (random_search_tuning (example_backend [] 0) SVMRegressorTuning 0 1
                        class_store labelled_tuner None None
                        (Some (CvObj (OtherSplitter ''GroupKFold''))) (Some 7) None None [])))
     = Some (OtherSplitter ''GroupKFold'')"
  using valid_fold_count_becomes_seeded_kfold
    [where be = "example_backend [] 0" and cls = SVMRegressorTuning and start = 0
       and stop = 1 and \<sigma> = class_store and self = labelled_tuner and cv_model = None
       and cv_params = None and cv = "Some (CvInt 3)" and seed = "Some 7" and scoring = None
       and fit_params = "[]" and n_iter = None and n = 3 and bayes_params = None
       and n_iter_b = None and init_points = None and acq = None
       and bayes_not_opt_params = None and sp = "OtherSplitter ''GroupKFold''"]
    valid_fold_count_becomes_seeded_kfold
    [where be = evaluating_backend and cls = SVMRegressorTuning and start = 0
       and stop = 1 and \<sigma> = class_store and self = labelled_tuner and cv_model = None
       and cv_params = None and cv = "Some (CvInt 3)" and seed = "Some 7" and scoring = None
       and fit_params = "[]" and n_iter = None and n = 3 and bayes_params = None
       and n_iter_b = None and init_points = None and acq = None
       and bayes_not_opt_params = None and sp = "OtherSplitter ''GroupKFold''"]
    valid_fold_count_becomes_seeded_kfold
    [where be = "example_backend [] 0" and cls = SVMRegressorTuning and start = 0
       and stop = 1 and \<sigma> = class_store and self = labelled_tuner and cv_model = None
       and cv_params = None and cv = "Some (CvInt 0)" and seed = "Some 7" and scoring = None
       and fit_params = "[]" and n_iter = None and n = 0 and bayes_params = None
       and n_iter_b = None and init_points = None and acq = None
       and bayes_not_opt_params = None and sp = "OtherSplitter ''GroupKFold''"]
    valid_fold_count_becomes_seeded_kfold
    [where be = "example_backend [] 0" and cls = SVMRegressorTuning and start = 0
       and stop = 1 and \<sigma> = class_store and self = labelled_tuner and cv_model = None
       and cv_params = None and cv = "Some (CvObj (OtherSplitter ''GroupKFold''))"
       and seed = "Some 7" and scoring = None
       and fit_params = "[]" and n_iter = None and n = 3 and bayes_params = None
       and n_iter_b = None and init_points = None and acq = None
       and bayes_not_opt_params = None and sp = "OtherSplitter ''GroupKFold''"]
  by (simp add: or_default_def)

text \<open>
  The claim as stated fails at a fold count of one: the grid search of the regression
  family raises and stores no splitter. It fails for Bayesian search too: the splitter
  object is stored, and the objective of the regression family raises before its call of
  \<^verbatim>\<open>cross_val_score\<close>, so the object does not reach the back end.
\<close>

theorem single_fold_raises:
  "fst (grid_search_tuning (example_backend [] 0) SVMRegressorTuning 0 1 class_store
          labelled_tuner None None (Some (CvInt 1)) None None []) =
     Inl (ValueError ''k-fold cross-validation requires n_splits=2 or more'') \<and>
   self_cv (snd (snd (grid_search_tuning (example_backend [] 0) SVMRegressorTuning 0 1
                        class_store labelled_tuner None None (Some (CvInt 1)) None None [])))
     = None \<and>
   fst (bayes_opt_tuning evaluating_backend SVMRegressorTuning 0 1 labelled_tuner
          None None (Some (CvObj (OtherSplitter ''GroupKFold''))) None None None None None
          None []) =
     Inl (AttributeError ''_int_conversion'')"
  by (simp add: grid_search_tuning_resolved bayes_opt_tuning_resolved Let_def example_defs
        labelled_defs SVMRegressor_objective_def SVMRegressor_bayes_evaluate_raises)

section \<open>The objective of Bayesian search\<close>

text \<open>
  C4. The code against the claim. The claim: the objective builds the parameter set
  (rounding, merging, prefixing) and returns the mean fold score. The first statement
  after the dictionary of arguments calls \<^verbatim>\<open>self._int_conversion\<close>, a method that no class
  of the source defines, so every evaluation of the objective of either family raises
  \<^verbatim>\<open>AttributeError\<close>, whatever the tuner state and the arguments, and a Bayesian search
  whose optimiser evaluates the objective raises with it.
\<close>

theorem objective_raises_on_missing_helper:
  "SVMRegressor_bayes_evaluate be self gamma C epsilon =
     Inl (AttributeError ''_int_conversion'') \<and>
   SVMClassifier_bayes_evaluate be self gamma C = Inl (AttributeError ''_int_conversion'') \<and>
   fst (bayes_opt_tuning evaluating_backend SVMRegressorTuning 0 1 labelled_tuner
          None None None None None None None None None []) =
     Inl (AttributeError ''_int_conversion'') \<and>
   fst (bayes_opt_tuning evaluating_backend SVMClassifierTuning 0 1 labelled_tuner
          None None None None None None None None None []) =
     Inl (AttributeError ''_int_conversion'')"
  by (simp add: SVMRegressor_bayes_evaluate_raises SVMClassifier_bayes_evaluate_raises
        bayes_opt_tuning_resolved Let_def example_defs SVMRegressor_objective_def
        SVMClassifier_objective_def)

section \<open>The integer cast after optimisation\<close>

text \<open>
  C5. The code against the claim. The claim: after a completed Bayesian search every
  parameter of \<^verbatim>\<open>INT_PARAMS\<close> is an integer in the returned mapping and no other parameter is
  cast. The code casts the two names \<^verbatim>\<open>min_child_weight\<close> and \<^verbatim>\<open>max_depth\<close> and never
  reads \<^verbatim>\<open>INT_PARAMS\<close>: in the tree family the declared \<^verbatim>\<open>n_estimators\<close> is returned as the
  float 57.3; with an empty \<^verbatim>\<open>INT_PARAMS\<close> the two names are cast all the same; in the
  regression family, whose best point has neither name, the call raises \<^verbatim>\<open>KeyError\<close>; and
  the last part of the method gives the same result whatever \<^verbatim>\<open>INT_PARAMS\<close> is.
\<close>

theorem declared_integer_left_as_float:
  "''n_estimators'' \<in> set (INT_PARAMS tree_family) \<and>
   fst (bayes_opt_tuning (example_backend example_point (9/10)) tree_family 0 1 example_tuner
          None None None None None None None None None []) =
     Inr ([(''n_estimators'', PFloat (573/10)), (''min_child_weight'', PInt 5),
           (''max_depth'', PInt 3), (''booster'', PStr ''gbtree''),
           (''random_state'', PInt 42)], 9/10, 1) \<and>
   INT_PARAMS (tree_family\<lparr>INT_PARAMS := []\<rparr>) = [] \<and>
   fst (bayes_opt_tuning (example_backend example_point (9/10))
          (tree_family\<lparr>INT_PARAMS := []\<rparr>) 0 1 example_tuner
          None None None None None None None None None []) =
     Inr ([(''n_estimators'', PFloat (573/10)), (''min_child_weight'', PInt 5),
           (''max_depth'', PInt 3), (''booster'', PStr ''gbtree''),
           (''random_state'', PInt 42)], 9/10, 1) \<and>
   fst (bayes_opt_tuning
          (example_backend [(''gamma'', 1/2), (''C'', 57/10), (''epsilon'', 1/10)] (9/10))
          SVMRegressorTuning 0 1 example_tuner
          None None None None None None None None None []) =
     Inl (KeyError ''min_child_weight'') \<and>
   bayes_best be (cls\<lparr>INT_PARAMS := ips\<rparr>) start stop self cv_model sd fit_params mx =
     bayes_best be cls start stop self cv_model sd fit_params mx"
  by (simp add: bayes_best_ignores_INT_PARAMS)
     (simp add: bayes_opt_tuning_resolved Let_def example_defs
        bayes_best_def trunc_def rat_rounding)

section \<open>The fixed parameters after optimisation\<close>

text \<open>
  C6. The code against the claim. The claim: the returned mapping holds the resolved fixed
  parameters, the caller's when the caller passes some. The code merges the class-level
  \<^verbatim>\<open>BAYES_NOT_OPT_PARAMS\<close>: a caller of the tree family who passes the booster \<^verbatim>\<open>dart\<close> has
  it stored in the tuner, where the objective reads it, and gets back the class default
  \<^verbatim>\<open>gbtree\<close>, which is also what the refitted model is given.
\<close>

theorem caller_fixed_params_dropped_from_result:
  "self_bayes_not_opt_params
     (snd (bayes_opt_tuning (example_backend example_point (9/10)) tree_family 0 1
             example_tuner None None None None None None None None
             (Some [(''booster'', PStr ''dart'')]) [])) =
     Some [(''booster'', PStr ''dart'')] \<and>
   fst (bayes_opt_tuning (example_backend example_point (9/10)) tree_family 0 1
          example_tuner None None None None None None None None
          (Some [(''booster'', PStr ''dart'')]) []) =
     Inr ([(''n_estimators'', PFloat (573/10)), (''min_child_weight'', PInt 5),
           (''max_depth'', PInt 3), (''booster'', PStr ''gbtree''),
           (''random_state'', PInt 42)], 9/10, 1) \<and>
   self_best_estimator
     (snd (bayes_opt_tuning (example_backend example_point (9/10)) tree_family 0 1
             example_tuner None None None None None None None None
             (Some [(''booster'', PStr ''dart'')]) [])) =
     Some (Bare (Learner ''XGBRegressor''
                   [(''n_estimators'', PFloat (573/10)), (''min_child_weight'', PInt 5),
                    (''max_depth'', PInt 3), (''booster'', PStr ''gbtree''),
                    (''random_state'', PInt 42)] None))"
  by (simp add: bayes_opt_tuning_resolved Let_def example_defs
        bayes_best_def trunc_def rat_rounding)

section \<open>Construction: the width check\<close>

text \<open>
  C7. Construction succeeds exactly when the column count of the feature matrix equals the
  length of the name list; the tuner then holds the inputs unchanged and no best estimator.
  When the counts differ, construction raises the exception with the width message, and
  the result holds no tuner state.
\<close>

theorem init_succeeds_iff_width_matches:
  "((\<exists>t. init X y X_colnames y_colname = Inr t) \<longleftrightarrow> shape1 X = length X_colnames) \<and>
   (\<forall>t. init X y X_colnames y_colname = Inr t \<longrightarrow>
        self_X t = X \<and> self_y t = y \<and> self_X_colnames t = X_colnames \<and>
        self_y_colname t = y_colname \<and> self_best_estimator t = None) \<and>
   (shape1 X \<noteq> length X_colnames \<longrightarrow>
        init X y X_colnames y_colname =
          Inl (Exception ''width of X must be equal to length of X_colnames''))"
  by (auto simp: init_def)

theorem init_succeeds_iff_width_matches_witness:
  "shape1 example_X = length [''a'', ''b'', ''c''] \<and>
   init example_X [1, 0] [''a'', ''b'', ''c''] None = Inr example_tuner \<and>
   self_X example_tuner = example_X \<and>
   self_best_estimator example_tuner = None \<and>
   shape1 example_X \<noteq> length [''a'', ''b''] \<and>
   init example_X [1, 0] [''a'', ''b''] None =
     Inl (Exception ''width of X must be equal to length of X_colnames'')"
  using init_succeeds_iff_width_matches [of example_X "[1, 0]" "[''a'', ''b'', ''c'']" None]
        init_succeeds_iff_width_matches [of example_X "[1, 0]" "[''a'', ''b'']" None]
  by (simp add: init_def example_X_def example_tuner_def)

section \<open>Feature importances: the outcome\<close>

text \<open>
  C8, as the code has it. On a tuner without a best estimator the method returns \<^verbatim>\<open>None\<close>
  and draws nothing; this is the state after construction, and after any search that
  raised on a tuner without a best estimator. On a tuner whose best estimator has
  per-feature importances, one for each feature name, it returns them in the original
  order and draws the bar chart with names and importances reversed, on the given surface
  or the default one. On a tuner whose best estimator has no such attribute the
  \<^verbatim>\<open>AttributeError\<close> propagates, and importances that cannot be broadcast against the
  names make the draw call raise \<^verbatim>\<open>ValueError\<close>.
\<close>

theorem get_feature_importances_outcome:
  "(self_best_estimator self = None \<longrightarrow>
      get_feature_importances self ax = (Inr None, None, self)) \<and>
   (self_best_estimator self = Some est \<and> feature_importances est = Some imps \<and>
    length imps = length (self_X_colnames self) \<longrightarrow>
      get_feature_importances self ax =
        (Inr (Some imps),
         Some (case ax of None \<Rightarrow> DefaultSurface | Some a \<Rightarrow> Axes a,
               rev (self_X_colnames self), rev imps),
         self)) \<and>
   (self_best_estimator self = Some est \<and> feature_importances est = None \<longrightarrow>
      get_feature_importances self ax =
        (Inl (AttributeError ''feature_importances_''), None, self)) \<and>
   (self_best_estimator self = Some est \<and> feature_importances est = Some imps \<and>
    length imps \<noteq> length (self_X_colnames self) \<and> length imps \<noteq> 1 \<and>
    length (self_X_colnames self) \<noteq> 1 \<longrightarrow>
      get_feature_importances self ax =
        (Inl (ValueError ''shape mismatch: objects cannot be broadcast to a single shape''),
         None, self)) \<and>
   (init X y X_colnames y_colname = Inr t \<longrightarrow>
      fst (get_feature_importances t ax) = Inr None) \<and>
   (self_best_estimator self = None \<and>
    fst (grid_search_tuning be cls start stop \<sigma> self cv_model cv_params cv seed scoring
           fit_params) = Inl ea \<longrightarrow>
      fst (get_feature_importances
             (snd (snd (grid_search_tuning be cls start stop \<sigma> self cv_model cv_params cv
                          seed scoring fit_params))) ax) = Inr None) \<and>
   (self_best_estimator self = None \<and>
    fst (random_search_tuning be cls start stop \<sigma> self cv_model cv_params cv seed scoring
           n_iter fit_params) = Inl eb \<longrightarrow>
      fst (get_feature_importances
             (snd (snd (random_search_tuning be cls start stop \<sigma> self cv_model cv_params cv
                          seed scoring n_iter fit_params))) ax) = Inr None) \<and>
   (self_best_estimator self = None \<and>
    fst (bayes_opt_tuning be cls start stop self cv_model bayes_params cv seed scoring
           n_iter_b init_points acq bayes_not_opt_params fit_params) = Inl ec \<longrightarrow>
      fst (get_feature_importances
             (snd (bayes_opt_tuning be cls start stop self cv_model bayes_params cv seed
                     scoring n_iter_b init_points acq bayes_not_opt_params fit_params)) ax)
        = Inr None)"
proof -
  have none: "fst (get_feature_importances u ax) = Inr None"
    if "self_best_estimator u = None" for u
    using that by (simp add: get_feature_importances_def)
  have fresh: "self_best_estimator t = None" if "init X y X_colnames y_colname = Inr t"
    using that by (auto simp: init_def split: if_splits)
  show ?thesis
    using none fresh
    by (auto simp: get_feature_importances_def barh_def Let_def
          grid_search_failure_keeps_estimator random_search_failure_keeps_estimator
          bayes_opt_failure_keeps_estimator)
qed

theorem get_feature_importances_outcome_witness:
  "self_best_estimator labelled_tuner = None \<and>
   get_feature_importances labelled_tuner None = (Inr None, None, labelled_tuner) \<and>
   init labelled_X [0, 1, 0, 1, 0, 1, 0, 1, 0, 1] [''a'', ''b'', ''c''] None
     = Inr labelled_tuner \<and>
   fst (bayes_opt_tuning evaluating_backend SVMRegressorTuning 0 1 labelled_tuner
          None None None None None None None None None []) =
     Inl (AttributeError ''_int_conversion'') \<and>
   fst (get_feature_importances
          (snd (bayes_opt_tuning evaluating_backend SVMRegressorTuning 0 1 labelled_tuner
                  None None None None None None None None None [])) None) = Inr None \<and>
   self_best_estimator
     (snd (snd (grid_search_tuning (example_backend [] 0) tree_family 0 1 class_store
                  labelled_tuner
                  (Some (Bare (Learner ''RandomForestRegressor'' [] (Some [1/2, 1/3, 1/6]))))
                  None None None None []))) =
     Some (Bare (Learner ''RandomForestRegressor'' [] (Some [1/2, 1/3, 1/6]))) \<and>
   feature_importances (Bare (Learner ''RandomForestRegressor'' [] (Some [1/2, 1/3, 1/6])))
     = Some [1/2, 1/3, 1/6] \<and>
   length [1/2, 1/3, 1/6 :: rat] =
     length (self_X_colnames
       (snd (snd (grid_search_tuning (example_backend [] 0) tree_family 0 1 class_store
                    labelled_tuner
                    (Some (Bare (Learner ''RandomForestRegressor'' [] (Some [1/2, 1/3, 1/6]))))
                    None None None None [])))) \<and>
   fst (get_feature_importances
          (snd (snd (grid_search_tuning (example_backend [] 0) tree_family 0 1 class_store
                       labelled_tuner
                       (Some (Bare (Learner ''RandomForestRegressor'' []
                                      (Some [1/2, 1/3, 1/6]))))
                       None None None None []))) (Some 0)) = Inr (Some [1/2, 1/3, 1/6]) \<and>
   fst (snd (get_feature_importances
          (snd (snd (grid_search_tuning (example_backend [] 0) tree_family 0 1 class_store
                       labelled_tuner
                       (Some (Bare (Learner ''RandomForestRegressor'' []
                                      (Some [1/2, 1/3, 1/6]))))
                       None None None None []))) (Some 0))) =
     Some (Axes 0, [''c'', ''b'', ''a''], [1/6, 1/3, 1/2]) \<and>
   fst (grid_search_tuning (example_backend [] 0) SVMRegressorTuning 0 1 class_store
          labelled_tuner None None (Some (CvInt 1)) None None []) =
     Inl (ValueError ''k-fold cross-validation requires n_splits=2 or more'') \<and>
   fst (get_feature_importances
          (snd (snd (grid_search_tuning (example_backend [] 0) SVMRegressorTuning 0 1
                       class_store labelled_tuner None None (Some (CvInt 1)) None None [])))
          None) = Inr None \<and>
   self_best_estimator
     (snd (snd (grid_search_tuning (example_backend [] 0) tree_family 0 1 class_store
                  labelled_tuner
                  (Some (Bare (Learner ''RandomForestRegressor'' [] (Some [1/2, 1/2]))))
                  None None None None []))) =
     Some (Bare (Learner ''RandomForestRegressor'' [] (Some [1/2, 1/2]))) \<and>
   length [1/2, 1/2 :: rat] \<noteq> length (self_X_colnames labelled_tuner) \<and>
   fst (get_feature_importances
          (snd (snd (grid_search_tuning (example_backend [] 0) tree_family 0 1 class_store
                       labelled_tuner
                       (Some (Bare (Learner ''RandomForestRegressor'' [] (Some [1/2, 1/2]))))
                       None None None None []))) None) =
     Inl (ValueError ''shape mismatch: objects cannot be broadcast to a single shape'')"
proof -
  let ?forest = "Bare (Learner ''RandomForestRegressor'' [] (Some [1/2, 1/3, 1/6]))"
  let ?t = "snd (snd (grid_search_tuning (example_backend [] 0) tree_family 0 1 class_store
                        labelled_tuner (Some ?forest) None None None None []))"
  have t: "?t = labelled_tuner
             \<lparr>self_tuning_params := Some (GridRef 4), self_seed := Some 42,
              self_scoring := Assigned (Some ''r2''), self_fit_params := Some [],
              self_cv := Some (KFold 5 True (Some 42)),
              self_best_estimator := Some ?forest\<rparr>"
    by (simp add: grid_search_tuning_resolved Let_def example_defs)
  have best: "self_best_estimator ?t = Some ?forest"
    unfolding t by simp
  have imps: "feature_importances ?forest = Some [1/2, 1/3, 1/6]"
    by simp
  have same_names: "self_X_colnames ?t = [''a'', ''b'', ''c'']"
    unfolding t by (simp add: labelled_defs)
  have len: "length [1/2, 1/3, 1/6 :: rat] = length (self_X_colnames ?t)"
    unfolding same_names by simp
  have names: "rev (self_X_colnames ?t) = [''c'', ''b'', ''a'']"
    unfolding same_names by simp
  have fresh: "self_best_estimator labelled_tuner = None"
   and made: "init labelled_X [0, 1, 0, 1, 0, 1, 0, 1, 0, 1] [''a'', ''b'', ''c''] None
                = Inr labelled_tuner"
    by (simp_all add: init_def labelled_defs)
  have raised: "fst (bayes_opt_tuning evaluating_backend SVMRegressorTuning 0 1 labelled_tuner
                       None None None None None None None None None []) =
                  Inl (AttributeError ''_int_conversion'')"
    by (simp add: bayes_opt_tuning_resolved Let_def example_defs SVMRegressor_objective_def
          SVMRegressor_bayes_evaluate_raises)
  note T1 = get_feature_importances_outcome
    [where self = labelled_tuner and ax = None and be = evaluating_backend
       and cls = SVMRegressorTuning and start = 0 and stop = 1 and cv_model = None
       and bayes_params = None and cv = None and seed = None and scoring = None
       and n_iter_b = None and init_points = None and acq = None
       and bayes_not_opt_params = None and fit_params = "[]"
       and ec = "AttributeError ''_int_conversion''"]
  note T2 = get_feature_importances_outcome
    [where self = ?t and ax = "Some 0" and est = ?forest and imps = "[1/2, 1/3, 1/6]"]
  from T1 fresh have first: "get_feature_importances labelled_tuner None
                               = (Inr None, None, labelled_tuner)"
    by blast
  from T1 fresh raised have after:
    "fst (get_feature_importances
            (snd (bayes_opt_tuning evaluating_backend SVMRegressorTuning 0 1 labelled_tuner
                    None None None None None None None None None [])) None) = Inr None"
    by blast
  have drawn:
    "get_feature_importances ?t (Some 0) =
       (Inr (Some [1/2, 1/3, 1/6]),
        Some (case Some 0 of None \<Rightarrow> DefaultSurface | Some a \<Rightarrow> Axes a,
              rev (self_X_colnames ?t), rev [1/2, 1/3, 1/6]), ?t)"
    by (rule T2 [THEN conjunct2, THEN conjunct1, THEN mp]) (intro conjI best imps len)
  have returned: "fst (get_feature_importances ?t (Some 0)) = Inr (Some [1/2, 1/3, 1/6])"
   and chart: "fst (snd (get_feature_importances ?t (Some 0))) =
                 Some (Axes 0, [''c'', ''b'', ''a''], [1/6, 1/3, 1/2])"
    by (simp_all add: drawn names)
  have single:
    "fst (grid_search_tuning (example_backend [] 0) SVMRegressorTuning 0 1 class_store
            labelled_tuner None None (Some (CvInt 1)) None None []) =
       Inl (ValueError ''k-fold cross-validation requires n_splits=2 or more'')"
    by (simp add: grid_search_tuning_resolved Let_def example_defs)
  note T3 = get_feature_importances_outcome
    [where self = labelled_tuner and ax = None and be = "example_backend [] 0"
       and cls = SVMRegressorTuning and start = 0 and stop = 1 and \<sigma> = class_store
       and cv_model = None and cv_params = None and cv = "Some (CvInt 1)" and seed = None
       and scoring = None and fit_params = "[]"
       and ea = "ValueError ''k-fold cross-validation requires n_splits=2 or more''"]
  from T3 fresh single have unfitted:
    "fst (get_feature_importances
            (snd (snd (grid_search_tuning (example_backend [] 0) SVMRegressorTuning 0 1
                         class_store labelled_tuner None None (Some (CvInt 1)) None None [])))
            None) = Inr None"
    by blast
  let ?short = "Bare (Learner ''RandomForestRegressor'' [] (Some [1/2, 1/2]))"
  let ?u = "snd (snd (grid_search_tuning (example_backend [] 0) tree_family 0 1 class_store
                        labelled_tuner (Some ?short) None None None None []))"
  have u: "?u = labelled_tuner
             \<lparr>self_tuning_params := Some (GridRef 4), self_seed := Some 42,
              self_scoring := Assigned (Some ''r2''), self_fit_params := Some [],
              self_cv := Some (KFold 5 True (Some 42)),
              self_best_estimator := Some ?short\<rparr>"
    by (simp add: grid_search_tuning_resolved Let_def example_defs)
  have held: "self_best_estimator ?u = Some ?short"
    unfolding u by simp
  have short: "feature_importances ?short = Some [1/2, 1/2]"
    by simp
  have names_u: "self_X_colnames ?u = [''a'', ''b'', ''c'']"
    unfolding u by (simp add: labelled_defs)
  have differ: "length [1/2, 1/2 :: rat] \<noteq> length (self_X_colnames labelled_tuner)"
    by (simp add: labelled_defs)
  have differ_u: "length [1/2, 1/2 :: rat] \<noteq> length (self_X_colnames ?u)"
   and names_not_one: "length (self_X_colnames ?u) \<noteq> 1"
    unfolding names_u by simp_all
  have not_one: "length [1/2, 1/2 :: rat] \<noteq> 1"
    by simp
  note T4 = get_feature_importances_outcome
    [where self = ?u and ax = None and est = ?short and imps = "[1/2, 1/2]"]
  have mismatch_full:
    "get_feature_importances ?u None =
       (Inl (ValueError ''shape mismatch: objects cannot be broadcast to a single shape''),
        None, ?u)"
    by (rule T4 [THEN conjunct2, THEN conjunct2, THEN conjunct2, THEN conjunct1, THEN mp])
       (intro conjI held short differ_u not_one names_not_one)
  have mismatch:
    "fst (get_feature_importances ?u None) =
       Inl (ValueError ''shape mismatch: objects cannot be broadcast to a single shape'')"
    by (simp add: mismatch_full)
  from fresh first made raised after best imps len returned chart single unfitted held differ
    mismatch
  show ?thesis
    by (intro conjI)
qed

text \<open>
  The claim as stated fails on a fitted learner without importances: a grid search of the
  classification family with a bare support-vector classifier as the model completes,
  the tuner holds the classifier as its best estimator, and the method raises.
\<close>

theorem fitted_learner_without_importances:
  "init labelled_X [0, 1, 0, 1, 0, 1, 0, 1, 0, 1] [''a'', ''b'', ''c''] None
     = Inr labelled_tuner \<and>
   self_best_estimator
     (snd (snd (grid_search_tuning (example_backend [] 0) SVMClassifierTuning 0 1
                  class_store labelled_tuner (Some (Bare (Learner ''SVC'' [] None))) None None
                  None (Some ''accuracy'') []))) =
     Some (Bare (Learner ''SVC'' [] None)) \<and>
   fst (get_feature_importances
          (snd (snd (grid_search_tuning (example_backend [] 0) SVMClassifierTuning 0 1
                       class_store labelled_tuner (Some (Bare (Learner ''SVC'' [] None))) None
                       None None (Some ''accuracy'') [])))
          None) = Inl (AttributeError ''feature_importances_'')"
  by (simp add: init_def grid_search_tuning_resolved Let_def example_defs labelled_defs
        get_feature_importances_def)

section \<open>Feature importances: repeated calls\<close>

text \<open>
  C9. A call of \<^verbatim>\<open>get_feature_importances\<close> leaves every field of the tuner as it was, and a
  second call right after it, on any plotting surface, has the same outcome as the first:
  the same returned value, or the same exception.
\<close>

theorem get_feature_importances_idempotent:
  "snd (snd (get_feature_importances self ax)) = self \<and>
   fst (get_feature_importances (snd (snd (get_feature_importances self ax))) ax') =
     fst (get_feature_importances self ax)"
  by (simp add: get_feature_importances_def barh_def Let_def split: option.splits)

section \<open>The grid dictionaries are written in place\<close>

text \<open>
  C10. A grid or random search without an explicit grid writes the \<^verbatim>\<open>random_state\<close> entry
  into the class-level default dictionary itself (\<^verbatim>\<open>CV_PARAMS_GRID\<close> or
  \<^verbatim>\<open>CV_PARAMS_RANDOM\<close>), in the store that all instances share, and the tuner keeps a
  reference to that dictionary; a later default search of any other instance starts from
  the dictionary so written. A caller's own dictionary is written in place in the same
  way and referenced, not copied.
\<close>

theorem grid_dictionary_written_in_place:
  "fst (snd (grid_search_tuning be cls start stop \<sigma> self cv_model None cv seed scoring fit_params))
     = \<sigma>(CV_PARAMS_GRID cls :=
           AList.update ''random_state'' [PInt (or_default seed (SEED cls))]
             (\<sigma> (CV_PARAMS_GRID cls))) \<and>
   fst (snd (random_search_tuning be cls start stop \<sigma> self cv_model None cv seed scoring n_iter
               fit_params))
     = \<sigma>(CV_PARAMS_RANDOM cls :=
           AList.update ''random_state'' [PInt (or_default seed (SEED cls))]
             (\<sigma> (CV_PARAMS_RANDOM cls))) \<and>
   fst (snd (grid_search_tuning be cls start stop \<sigma> self cv_model (Some a) cv seed scoring
               fit_params))
     = \<sigma>(a := AList.update ''random_state'' [PInt (or_default seed (SEED cls))] (\<sigma> a)) \<and>
   fst (snd (random_search_tuning be cls start stop \<sigma> self cv_model (Some a) cv seed scoring
               n_iter fit_params))
     = \<sigma>(a := AList.update ''random_state'' [PInt (or_default seed (SEED cls))] (\<sigma> a)) \<and>
   self_tuning_params
     (snd (snd (grid_search_tuning be cls start stop \<sigma> self cv_model None cv seed scoring
                  fit_params)))
     = Some (GridRef (CV_PARAMS_GRID cls)) \<and>
   self_tuning_params
     (snd (snd (grid_search_tuning be cls start stop \<sigma> self cv_model (Some a) cv seed scoring
                  fit_params)))
     = Some (GridRef a) \<and>
   self_tuning_params
     (snd (snd (random_search_tuning be cls start stop \<sigma> self cv_model None cv seed scoring
                  n_iter fit_params)))
     = Some (GridRef (CV_PARAMS_RANDOM cls)) \<and>
   self_tuning_params
     (snd (snd (random_search_tuning be cls start stop \<sigma> self cv_model (Some a) cv seed scoring
                  n_iter fit_params)))
     = Some (GridRef a) \<and>
   fst (grid_search_tuning be cls start' stop'
          (fst (snd (grid_search_tuning be cls start stop \<sigma> self cv_model None cv seed
                       scoring fit_params)))
          other cv_model' None cv' seed' scoring' fit_params') =
     (case resolved_splitter (or_default cv' (CvInt (CV_NUM cls)))
             (or_default seed' (SEED cls)) of
        Inl e \<Rightarrow> Inl e
      | Inr sp \<Rightarrow>
          search_outcome start' stop'
            (GridSearchCV be (or_default_opt cv_model' (CV_MODEL cls))
               (AList.update ''random_state'' [PInt (or_default seed' (SEED cls))]
                  (AList.update ''random_state'' [PInt (or_default seed (SEED cls))]
                     (\<sigma> (CV_PARAMS_GRID cls))))
               sp (or_default_opt scoring' (SCORING cls)) (self_X other) (self_y other)
               (or_default_kwargs fit_params' (FIT_PARAMS cls))))"
proof -
  have omitted: "or_default None d = d" and passed: "or_default (Some v) d = v"
    for d v :: addr
    by (simp_all add: or_default_def)
  show ?thesis
    by (simp add: grid_search_tuning_store random_search_tuning_store
          grid_search_tuning_params random_search_tuning_params grid_search_tuning_outcome
          omitted passed split: sum.splits)
qed

theorem grid_dictionary_written_in_place_witness:
  "map_of (class_store (CV_PARAMS_GRID SVMRegressorTuning)) ''random_state'' = None \<and>
   map_of (fst (snd (grid_search_tuning (example_backend [] 0) SVMRegressorTuning 0 1
                       class_store example_tuner None None None None None []))
             (CV_PARAMS_GRID SVMRegressorTuning)) ''random_state'' = Some [PInt 42]"
  using grid_dictionary_written_in_place
    [where be = "example_backend [] 0" and cls = SVMRegressorTuning and start = 0
       and stop = 1 and \<sigma> = class_store and self = example_tuner and cv_model = None
       and cv = None and seed = None and scoring = None and fit_params = "[]"
       and n_iter = None and a = 7]
  by (simp add: example_defs update_conv')

end
